theory Spec2Isabelle
  imports Main "HOL-Library.AList" "HOL-Library.Sublist"
begin

section \<open>Python strings\<close>

text \<open>
  A Python \<open>str\<close> is modelled as a \<open>string\<close>: a list of characters, each read as the
  code point of the same number (U+0000 to U+00FF). The character classes below are
  those of the Unicode database on this range, which is what \<open>str.isalnum\<close>,
  \<open>str.islower\<close>, \<open>str.lower\<close> and \<open>str.strip\<close> consult. Code points above U+00FF
  are outside the model.
\<close>

definition in_range :: "nat \<Rightarrow> nat \<Rightarrow> char \<Rightarrow> bool" where
  "in_range lo hi c = (lo \<le> of_char c \<and> (of_char c :: nat) \<le> hi)"

definition isspace_char :: "char \<Rightarrow> bool" where
  "isspace_char c =
     (in_range 9 13 c \<or> in_range 28 32 c \<or> in_range 133 133 c \<or> in_range 160 160 c)"

definition isupper_char :: "char \<Rightarrow> bool" where
  "isupper_char c = (in_range 65 90 c \<or> in_range 192 214 c \<or> in_range 216 222 c)"

definition islower_char :: "char \<Rightarrow> bool" where
  "islower_char c =
     (in_range 97 122 c \<or> in_range 170 170 c \<or> in_range 181 181 c \<or> in_range 186 186 c
      \<or> in_range 223 246 c \<or> in_range 248 255 c)"

definition isalnum_char :: "char \<Rightarrow> bool" where
  "isalnum_char c =
     (in_range 48 57 c \<or> isupper_char c \<or> islower_char c
      \<or> in_range 178 179 c \<or> in_range 185 185 c \<or> in_range 188 190 c)"

definition lower_char :: "char \<Rightarrow> char" where
  "lower_char c = (if isupper_char c then char_of (of_char c + (32::nat)) else c)"

text \<open>\<open>s.isalnum()\<close>: every character is alphanumeric and there is at least one.\<close>

definition isalnum :: "string \<Rightarrow> bool" where
  "isalnum s = (s \<noteq> [] \<and> list_all isalnum_char s)"

text \<open>\<open>s.islower()\<close>: no uppercase character, and at least one lowercase one.\<close>

definition islower :: "string \<Rightarrow> bool" where
  "islower s = (\<not> list_ex isupper_char s \<and> list_ex islower_char s)"

definition lower :: "string \<Rightarrow> string" where
  "lower s = map lower_char s"

text \<open>\<open>s.strip()\<close> removes the whitespace at both ends.\<close>

definition strip :: "string \<Rightarrow> string" where
  "strip s = rev (dropWhile isspace_char (rev (dropWhile isspace_char s)))"

text \<open>\<open>bytes.strip()\<close> removes ASCII whitespace only.\<close>

definition bytes_strip :: "string \<Rightarrow> string" where
  "bytes_strip s =
     rev (dropWhile (\<lambda>c. in_range 9 13 c \<or> in_range 32 32 c)
       (rev (dropWhile (\<lambda>c. in_range 9 13 c \<or> in_range 32 32 c) s)))"

definition startswith :: "string \<Rightarrow> string \<Rightarrow> bool" where
  "startswith s p = (take (length p) s = p)"

text \<open>\<open>sub in s\<close>, for a string \<open>s\<close>.\<close>

fun contains :: "string \<Rightarrow> string \<Rightarrow> bool" where
  "contains sub [] = (sub = [])"
| "contains sub (c # cs) = (startswith (c # cs) sub \<or> contains sub cs)"

text \<open>
  \<open>s.replace(old, new)\<close> for a one-character \<open>old\<close>, the only way the scripts call it.
\<close>

definition replace :: "char \<Rightarrow> string \<Rightarrow> string \<Rightarrow> string" where
  "replace old new s = concat (map (\<lambda>c. if c = old then new else [c]) s)"

text \<open>
  \<open>s.split(sep, maxsplit)\<close> for a non-empty \<open>sep\<close>: \<open>cut\<close> finds the leftmost occurrence
  of the separator and returns the text before and after it.
\<close>

fun cut :: "string \<Rightarrow> string \<Rightarrow> (string \<times> string) option" where
  "cut sep [] = None"
| "cut sep (c # cs) =
     (if startswith (c # cs) sep then Some ([], drop (length sep) (c # cs))
      else (case cut sep cs of None \<Rightarrow> None | Some (a, b) \<Rightarrow> Some (c # a, b)))"

fun split :: "string \<Rightarrow> nat \<Rightarrow> string \<Rightarrow> string list" where
  "split sep 0 s = [s]"
| "split sep (Suc n) s =
     (case cut sep s of None \<Rightarrow> [s] | Some (a, b) \<Rightarrow> a # split sep n b)"

text \<open>
  Text mode reading translates \<open>\r\n\<close> and a lone \<open>\r\<close> to \<open>\n\<close> (universal newlines).
\<close>

fun universal_newlines :: "string \<Rightarrow> string" where
  "universal_newlines [] = []"
| "universal_newlines [c] = (if c = CHR 0x0D then [CHR 0x0A] else [c])"
| "universal_newlines (c # d # cs) =
     (if c = CHR 0x0D \<and> d = CHR 0x0A then CHR 0x0A # universal_newlines cs
      else if c = CHR 0x0D then CHR 0x0A # universal_newlines (d # cs)
      else c # universal_newlines (d # cs))"

section \<open>Paths and the file system\<close>

text \<open>
  A \<open>pathlib.Path\<close> is its anchor (absolute or not) and its components. Components are
  plain names: pathlib has already dropped \<open>.\<close>, and \<open>..\<close> is not interpreted here.
  \<open>Path('.')\<close> is the relative path with no component; its \<open>name\<close> is the empty
  string and it is its own \<open>parent\<close>.
\<close>

datatype path = Path (is_absolute: bool) (parts: "string list")

definition name :: "path \<Rightarrow> string" where
  "name p = (if parts p = [] then [] else last (parts p))"

definition parent :: "path \<Rightarrow> path" where
  "parent p = Path (is_absolute p) (butlast (parts p))"

text \<open>\<open>p / c\<^sub>1 / ... / c\<^sub>n\<close> for plain relative components.\<close>

definition joinpath :: "path \<Rightarrow> string list \<Rightarrow> path" where
  "joinpath p cs = Path (is_absolute p) (parts p @ cs)"

text \<open>\<open>f.relative_to(base)\<close> for a path \<open>f\<close> that was built from \<open>base\<close>.\<close>

definition relative_to :: "path \<Rightarrow> path \<Rightarrow> path" where
  "relative_to f base = Path False (drop (length (parts base)) (parts f))"

text \<open>
  The file system is a tree: a file holds its bytes, a directory its entries by name.
  The process has a current directory, against which relative paths are resolved.
  Links, permissions and special files are not modelled.
\<close>

datatype node = File string | Dir "(string \<times> node) list"

record filesystem =
  root :: node
  cwd :: "string list"

datatype yaml_error = YAMLError string

datatype pyfloat = Finite int int | Infinity bool | NaN

text \<open>
  The values \<open>yaml.safe_load\<close> can return: \<open>None\<close>, booleans, integers, floats, strings,
  bytes, dates (kept as their text), lists, dictionaries and sets.
\<close>

datatype yaml =
    YNull
  | YBool bool
  | YInt int
  | YFloat pyfloat
  | YStr string
  | YBytes string
  | YDate string
  | YSeq "yaml list"
  | YMap "(yaml \<times> yaml) list"
  | YSet "yaml list"

text \<open>
  The messages of the two scripts, one constructor per message text, carrying the values
  the text interpolates.
\<close>

datatype message =
    Directory_does_not_exist path
  | Path_is_not_a_directory path
  | Skill_md_not_found
  | Must_start_with_frontmatter
  | Must_have_closing_marker
  | Invalid_yaml_frontmatter yaml_error
  | Frontmatter_must_be_dictionary
  | Must_include_name
  | Must_include_description
  | Name_does_not_match yaml string
  | Description_too_short
  | Description_contains_todo
  | Extra_fields "yaml list"
  | Body_is_empty
  | Body_contains_todo
  | Body_very_short
  | Body_very_long
  | Example_file_found path
  | No_bundled_resources
  | Should_be_lowercase string
  | Should_use_hyphens string
  | Cannot_contain_spaces string
  | Validation_failed
  | Skill_directory_already_exists path
  | Name_should_only_contain

datatype exn =
    ValidationError message
  | AttributeError
  | TypeError
  | FileNotFoundError
  | FileExistsError
  | NotADirectoryError
  | IsADirectoryError

definition locate :: "filesystem \<Rightarrow> path \<Rightarrow> string list" where
  "locate fs p = (if is_absolute p then parts p else cwd fs @ parts p)"

fun lookup :: "node \<Rightarrow> string list \<Rightarrow> node option" where
  "lookup n [] = Some n"
| "lookup (File b) (c # cs) = None"
| "lookup (Dir es) (c # cs) =
     (case map_of es c of None \<Rightarrow> None | Some ch \<Rightarrow> lookup ch cs)"

definition stat :: "filesystem \<Rightarrow> path \<Rightarrow> node option" where
  "stat fs p = lookup (root fs) (locate fs p)"

definition exists :: "filesystem \<Rightarrow> path \<Rightarrow> bool" where
  "exists fs p = (stat fs p \<noteq> None)"

definition is_dir :: "filesystem \<Rightarrow> path \<Rightarrow> bool" where
  "is_dir fs p = (case stat fs p of Some (Dir es) \<Rightarrow> True | _ \<Rightarrow> False)"

definition is_file :: "filesystem \<Rightarrow> path \<Rightarrow> bool" where
  "is_file fs p = (case stat fs p of Some (File b) \<Rightarrow> True | _ \<Rightarrow> False)"

definition read_text :: "filesystem \<Rightarrow> path \<Rightarrow> exn + string" where
  "read_text fs p =
     (case stat fs p of
        None \<Rightarrow> Inl FileNotFoundError
      | Some (Dir es) \<Rightarrow> Inl IsADirectoryError
      | Some (File b) \<Rightarrow> Inr (universal_newlines b))"

text \<open>
  \<open>p.rglob('*')\<close>: every entry below \<open>p\<close>, files and directories, as a path built on
  \<open>p\<close>; nothing when \<open>p\<close> is not a directory.
\<close>

fun rel_paths :: "node \<Rightarrow> string list list" where
  "rel_paths (File b) = []"
| "rel_paths (Dir es) = concat (map (\<lambda>(n, ch). [n] # map ((#) n) (rel_paths ch)) es)"

definition rglob :: "filesystem \<Rightarrow> path \<Rightarrow> path list" where
  "rglob fs p = (case stat fs p of None \<Rightarrow> [] | Some n \<Rightarrow> map (joinpath p) (rel_paths n))"

section \<open>The validator (package_skill.py)\<close>

record validator =
  skill_path :: path
  skill_name :: string
  errors :: "message list"
  warnings :: "message list"

text \<open>\<open>SkillValidator.__init__\<close>\<close>

definition SkillValidator :: "path \<Rightarrow> validator" where
  "SkillValidator p = \<lparr>skill_path = p, skill_name = name p, errors = [], warnings = []\<rparr>"

text \<open>
  A check either returns with the validator it has updated, or raises: then it gives the
  exception and the validator as it was when the exception left the method.
\<close>

type_synonym check = "validator \<Rightarrow> (exn \<times> validator) + validator"

definition add_error :: "message \<Rightarrow> validator \<Rightarrow> validator" where
  "add_error m self = self\<lparr>errors := errors self @ [m]\<rparr>"

definition add_warning :: "message \<Rightarrow> validator \<Rightarrow> validator" where
  "add_warning m self = self\<lparr>warnings := warnings self @ [m]\<rparr>"

definition validate_directory_exists :: "filesystem \<Rightarrow> check" where
  "validate_directory_exists fs self =
     (if \<not> exists fs (skill_path self)
      then Inl (ValidationError (Directory_does_not_exist (skill_path self)), self)
      else if \<not> is_dir fs (skill_path self)
      then Inl (ValidationError (Path_is_not_a_directory (skill_path self)), self)
      else Inr self)"

definition validate_skill_md_exists :: "filesystem \<Rightarrow> check" where
  "validate_skill_md_exists fs self =
     (if \<not> exists fs (joinpath (skill_path self) [''SKILL.md''])
      then Inl (ValidationError Skill_md_not_found, self)
      else Inr self)"

text \<open>Truth value of a parsed value (\<open>not description\<close> is its negation).\<close>

fun truthy :: "yaml \<Rightarrow> bool" where
  "truthy YNull = False"
| "truthy (YBool b) = b"
| "truthy (YInt i) = (i \<noteq> 0)"
| "truthy (YFloat (Finite m e)) = (m \<noteq> 0)"
| "truthy (YFloat (Infinity s)) = True"
| "truthy (YFloat NaN) = True"
| "truthy (YStr s) = (s \<noteq> [])"
| "truthy (YBytes b) = (b \<noteq> [])"
| "truthy (YDate d) = True"
| "truthy (YSeq xs) = (xs \<noteq> [])"
| "truthy (YMap kvs) = (kvs \<noteq> [])"
| "truthy (YSet xs) = (xs \<noteq> [])"

text \<open>\<open>len(description.strip())\<close>: only strings and bytes have a \<open>strip\<close> method.\<close>

fun stripped_len :: "yaml \<Rightarrow> exn + nat" where
  "stripped_len (YStr s) = Inr (length (strip s))"
| "stripped_len (YBytes b) = Inr (length (bytes_strip b))"
| "stripped_len v = Inl AttributeError"

text \<open>
  \<open>'TODO' in description\<close>: substring test on a string, membership in a list, a
  dictionary's keys or a set, a \<open>TypeError\<close> on everything else.
\<close>

fun todo_in :: "yaml \<Rightarrow> exn + bool" where
  "todo_in (YStr s) = Inr (contains ''TODO'' s)"
| "todo_in (YSeq xs) = Inr (YStr ''TODO'' \<in> set xs)"
| "todo_in (YMap kvs) = Inr (YStr ''TODO'' \<in> fst ` set kvs)"
| "todo_in (YSet xs) = Inr (YStr ''TODO'' \<in> set xs)"
| "todo_in v = Inl TypeError"

text \<open>
  The description checks (lines 97 to 105). \<open>not description or len(...) < 20\<close>
  evaluates the length only when the value is truthy.
\<close>

definition check_description :: "yaml \<Rightarrow> check" where
  "check_description description self =
     (case (if \<not> truthy description then Inr True
            else (case stripped_len description of
                    Inl e \<Rightarrow> Inl e
                  | Inr n \<Rightarrow> Inr (n < 20))) of
        Inl e \<Rightarrow> Inl (e, self)
      | Inr short \<Rightarrow>
          (let self1 = (if short then add_error Description_too_short self else self) in
           (case todo_in description of
              Inl e \<Rightarrow> Inl (e, self1)
            | Inr todo \<Rightarrow>
                Inr (if todo then add_error Description_contains_todo self1 else self1))))"

definition extra_fields :: "(yaml \<times> yaml) list \<Rightarrow> yaml list" where
  "extra_fields kvs =
     filter (\<lambda>k. k \<noteq> YStr ''name'' \<and> k \<noteq> YStr ''description'') (remdups (map fst kvs))"

text \<open>
  The checks on the parsed header (lines 80 to 113). \<open>yaml.safe_load\<close> itself is a
  parameter of the model: \<open>safe_load\<close> gives the parsed value or the parser's error.
\<close>

definition check_frontmatter :: "yaml_error + yaml \<Rightarrow> check" where
  "check_frontmatter parsed self =
     (case parsed of
        Inl e \<Rightarrow> Inl (ValidationError (Invalid_yaml_frontmatter e), self)
      | Inr (YMap kvs) \<Rightarrow>
          (case map_of kvs (YStr ''name'') of
             None \<Rightarrow> Inl (ValidationError Must_include_name, self)
           | Some nm \<Rightarrow>
               (case map_of kvs (YStr ''description'') of
                  None \<Rightarrow> Inl (ValidationError Must_include_description, self)
                | Some description \<Rightarrow>
                    (let self1 = (if nm \<noteq> YStr (skill_name self)
                                  then add_warning (Name_does_not_match nm (skill_name self)) self
                                  else self) in
                     (case check_description description self1 of
                        Inl e \<Rightarrow> Inl e
                      | Inr self2 \<Rightarrow>
                          Inr (if extra_fields kvs \<noteq> []
                               then add_warning (Extra_fields (extra_fields kvs)) self2
                               else self2)))))
      | Inr v \<Rightarrow> Inl (ValidationError Frontmatter_must_be_dictionary, self))"

definition validate_yaml_frontmatter ::
  "(string \<Rightarrow> yaml_error + yaml) \<Rightarrow> filesystem \<Rightarrow> check" where
  "validate_yaml_frontmatter safe_load fs self =
     (case read_text fs (joinpath (skill_path self) [''SKILL.md'']) of
        Inl e \<Rightarrow> Inl (e, self)
      | Inr content \<Rightarrow>
          (if \<not> startswith content ''---''
           then Inl (ValidationError Must_start_with_frontmatter, self)
           else (let parts = split ''---'' 2 content in
             if length parts < 3
             then Inl (ValidationError Must_have_closing_marker, self)
             else check_frontmatter (safe_load (strip (parts ! 1))) self)))"

definition check_body :: "string \<Rightarrow> validator \<Rightarrow> validator" where
  "check_body body self =
     (if body = [] then add_error Body_is_empty self
      else (let self1 = (if contains ''TODO'' body then add_warning Body_contains_todo self
                         else self);
                self2 = (if length body < 100 then add_warning Body_very_short self1
                         else self1)
            in if length body > 25000 then add_warning Body_very_long self2 else self2))"

definition validate_skill_body :: "filesystem \<Rightarrow> check" where
  "validate_skill_body fs self =
     (case read_text fs (joinpath (skill_path self) [''SKILL.md'']) of
        Inl e \<Rightarrow> Inl (e, self)
      | Inr content \<Rightarrow>
          (let parts = split ''---'' 2 content in
           if length parts < 3 then Inr self
           else Inr (check_body (strip (parts ! 2)) self)))"

text \<open>
  One round of the loop over the resource directories: the state is \<open>has_resources\<close>
  and the validator.
\<close>

definition resource_files :: "filesystem \<Rightarrow> path \<Rightarrow> path list" where
  "resource_files fs dir_path =
     filter (\<lambda>f. is_file fs f \<and> name f \<noteq> ''.gitkeep'') (rglob fs dir_path)"

definition example_warnings :: "path \<Rightarrow> path list \<Rightarrow> message list" where
  "example_warnings base files =
     map (\<lambda>f. Example_file_found (relative_to f base))
       (filter (\<lambda>f. contains ''example'' (lower (name f))) files)"

definition resources_step ::
  "filesystem \<Rightarrow> bool \<times> validator \<Rightarrow> string \<Rightarrow> bool \<times> validator" where
  "resources_step fs st dir_name =
     (let self = snd st; dir_path = joinpath (skill_path self) [dir_name] in
      if exists fs dir_path \<and> is_dir fs dir_path
      then (let files = resource_files fs dir_path in
            if files \<noteq> []
            then (True,
                  self\<lparr>warnings := warnings self @ example_warnings (skill_path self) files\<rparr>)
            else st)
      else st)"

definition validate_resources :: "filesystem \<Rightarrow> check" where
  "validate_resources fs self =
     (let st = foldl (resources_step fs) (False, self) [''scripts'', ''references'', ''assets'']
      in Inr (if \<not> fst st then add_warning No_bundled_resources (snd st) else snd st))"

definition validate_naming_conventions :: "check" where
  "validate_naming_conventions self =
     (let self1 = (if \<not> islower (skill_name self)
                   then add_warning (Should_be_lowercase (skill_name self)) self else self);
          self2 = (if CHR ''_'' \<in> set (skill_name self)
                   then add_warning (Should_use_hyphens (skill_name self)) self1 else self1)
      in Inr (if CHR '' '' \<in> set (skill_name self)
              then add_error (Cannot_contain_spaces (skill_name self)) self2 else self2))"

text \<open>The checks of \<open>validate\<close> run in order; the first exception ends the run.\<close>

fun run_checks :: "check list \<Rightarrow> check" where
  "run_checks [] self = Inr self"
| "run_checks (c # cs) self =
     (case c self of Inl e \<Rightarrow> Inl e | Inr self' \<Rightarrow> run_checks cs self')"

definition all_checks ::
  "(string \<Rightarrow> yaml_error + yaml) \<Rightarrow> filesystem \<Rightarrow> check list" where
  "all_checks safe_load fs =
     [validate_directory_exists fs,
      validate_skill_md_exists fs,
      validate_yaml_frontmatter safe_load fs,
      validate_skill_body fs,
      validate_resources fs,
      validate_naming_conventions]"

definition report :: "validator \<Rightarrow> bool \<times> message list \<times> message list" where
  "report self = (errors self = [], errors self, warnings self)"

text \<open>
  \<open>validate\<close> catches \<open>ValidationError\<close> only and appends its message to the errors; any
  other exception leaves \<open>validate\<close>, and no report is returned.
\<close>

definition validate ::
  "(string \<Rightarrow> yaml_error + yaml) \<Rightarrow> filesystem \<Rightarrow> validator \<Rightarrow>
     exn + (bool \<times> message list \<times> message list)" where
  "validate safe_load fs self =
     (case run_checks (all_checks safe_load fs) self of
        Inr self' \<Rightarrow> Inr (report self')
      | Inl (ValidationError m, self') \<Rightarrow> Inr (report (add_error m self'))
      | Inl (e, self') \<Rightarrow> Inl e)"

section \<open>Changing the file system\<close>

text \<open>
  \<open>p / s\<close> for a string \<open>s\<close>: the string is cut at its slashes, empty components and
  \<open>.\<close> are dropped, and a string that starts with a slash replaces \<open>p\<close>.
\<close>

fun path_fields :: "char \<Rightarrow> string \<Rightarrow> string list" where
  "path_fields sep [] = [[]]"
| "path_fields sep (c # cs) =
     (if c = sep then [] # path_fields sep cs
      else (case path_fields sep cs of [] \<Rightarrow> [[c]] | f # fs \<Rightarrow> (c # f) # fs))"

definition components :: "string \<Rightarrow> string list" where
  "components s = filter (\<lambda>c. c \<noteq> [] \<and> c \<noteq> ''.'') (path_fields (CHR ''/'') s)"

definition slash :: "path \<Rightarrow> string \<Rightarrow> path" where
  "slash p s =
     (if startswith s ''/'' then Path True (components s)
      else Path (is_absolute p) (parts p @ components s))"

text \<open>A chain of new, otherwise empty directories.\<close>

fun fresh :: "string list \<Rightarrow> node" where
  "fresh [] = Dir []"
| "fresh (c # cs) = Dir [(c, fresh cs)]"

text \<open>
  \<open>Path.mkdir(parents, exist_ok)\<close> along the components of a path, from the node
  they start at.
\<close>

fun mkdir_node :: "bool \<Rightarrow> bool \<Rightarrow> node \<Rightarrow> string list \<Rightarrow> exn + node" where
  "mkdir_node parents exist_ok (Dir es) [] =
     (if exist_ok then Inr (Dir es) else Inl FileExistsError)"
| "mkdir_node parents exist_ok (File b) [] = Inl FileExistsError"
| "mkdir_node parents exist_ok (File b) (c # cs) = Inl NotADirectoryError"
| "mkdir_node parents exist_ok (Dir es) (c # cs) =
     (case map_of es c of
        None \<Rightarrow>
          (if cs = [] \<or> parents then Inr (Dir (es @ [(c, fresh cs)]))
           else Inl FileNotFoundError)
      | Some ch \<Rightarrow>
          (case mkdir_node parents exist_ok ch cs of
             Inl e \<Rightarrow> Inl e
           | Inr ch' \<Rightarrow> Inr (Dir (AList.update c ch' es))))"

text \<open>Opening a path for writing and storing the bytes: the file is made or replaced.\<close>

fun write_node :: "node \<Rightarrow> string list \<Rightarrow> string \<Rightarrow> exn + node" where
  "write_node (File old) [] b = Inr (File b)"
| "write_node (Dir es) [] b = Inl IsADirectoryError"
| "write_node (File old) (c # cs) b = Inl NotADirectoryError"
| "write_node (Dir es) (c # cs) b =
     (case map_of es c of
        None \<Rightarrow> (if cs = [] then Inr (Dir (es @ [(c, File b)])) else Inl FileNotFoundError)
      | Some ch \<Rightarrow>
          (case write_node ch cs b of
             Inl e \<Rightarrow> Inl e
           | Inr ch' \<Rightarrow> Inr (Dir (AList.update c ch' es))))"

definition mkdir :: "bool \<Rightarrow> bool \<Rightarrow> path \<Rightarrow> filesystem \<Rightarrow> exn + filesystem" where
  "mkdir parents exist_ok p fs =
     (case mkdir_node parents exist_ok (root fs) (locate fs p) of
        Inl e \<Rightarrow> Inl e
      | Inr r \<Rightarrow> Inr (fs\<lparr>root := r\<rparr>))"

definition write_bytes :: "path \<Rightarrow> string \<Rightarrow> filesystem \<Rightarrow> exn + filesystem" where
  "write_bytes p b fs =
     (case write_node (root fs) (locate fs p) b of
        Inl e \<Rightarrow> Inl e
      | Inr r \<Rightarrow> Inr (fs\<lparr>root := r\<rparr>))"

text \<open>\<open>write_text\<close> stores the text as it is (no newline translation on POSIX).\<close>

definition write_text :: "path \<Rightarrow> string \<Rightarrow> filesystem \<Rightarrow> exn + filesystem" where
  "write_text p s fs = write_bytes p s fs"

text \<open>Permissions are not modelled: \<open>chmod\<close> only needs the file to be there.\<close>

definition chmod :: "path \<Rightarrow> filesystem \<Rightarrow> exn + filesystem" where
  "chmod p fs = (if exists fs p then Inr fs else Inl FileNotFoundError)"

definition touch :: "path \<Rightarrow> filesystem \<Rightarrow> exn + filesystem" where
  "touch p fs = (if exists fs p then Inr fs else write_bytes p [] fs)"

text \<open>Steps on the file system run in order; the first exception ends the run.\<close>

fun run_steps :: "(filesystem \<Rightarrow> exn + filesystem) list \<Rightarrow> filesystem \<Rightarrow> exn + filesystem" where
  "run_steps [] fs = Inr fs"
| "run_steps (st # sts) fs =
     (case st fs of Inl e \<Rightarrow> Inl e | Inr fs' \<Rightarrow> run_steps sts fs')"

section \<open>The initializer (init_skill.py)\<close>

definition PLACEHOLDER_DESCRIPTION :: string where
  "PLACEHOLDER_DESCRIPTION =
     ''TODO - Describe what this skill does and when to use it. '' @
     ''This is the primary triggering mechanism - be comprehensive and clear '' @
     ''about all use cases.''"

definition TEMPLATE_SECTIONS :: string where
  "TEMPLATE_SECTIONS =
     ''\<newline>'' @
     ''\<newline>'' @
     ''## Overview\<newline>'' @
     ''\<newline>'' @
     ''TODO - Brief overview of what this skill provides\<newline>'' @
     ''\<newline>'' @
     ''## When to Use This Skill\<newline>'' @
     ''\<newline>'' @
     ''TODO - Specific scenarios and triggers for this skill (This is critica'' @
     ''l for skill activation)\<newline>'' @
     ''\<newline>'' @
     ''## Workflow\<newline>'' @
     ''\<newline>'' @
     ''TODO - Step-by-step instructions for using this skill\<newline>'' @
     ''\<newline>'' @
     ''### Step 1: TODO\<newline>'' @
     ''\<newline>'' @
     ''TODO - Detailed instructions\<newline>'' @
     ''\<newline>'' @
     ''### Step 2: TODO\<newline>'' @
     ''\<newline>'' @
     ''TODO - Detailed instructions\<newline>'' @
     ''\<newline>'' @
     ''## Examples\<newline>'' @
     ''\<newline>'' @
     ''TODO - Concrete examples of skill usage\<newline>'' @
     ''\<newline>'' @
     ''## Resources\<newline>'' @
     ''\<newline>'' @
     ''- **Scripts**: See `scripts/` directory for automation tools\<newline>'' @
     ''- **References**: See `references/` directory for detailed documentati'' @
     ''on\<newline>'' @
     ''- **Assets**: See `assets/` directory for templates and resources\<newline>'' @
     ''\<newline>'' @
     ''## Common Pitfalls\<newline>'' @
     ''\<newline>'' @
     ''TODO - Things to watch out for\<newline>'' @
     ''\<newline>'' @
     ''## Best Practices\<newline>'' @
     ''\<newline>'' @
     ''TODO - Recommended approaches\<newline>''"

text \<open>\<open>SKILL_TEMPLATE.format(skill_name=..., skill_title=...)\<close>\<close>

definition SKILL_TEMPLATE :: "string \<Rightarrow> string \<Rightarrow> string" where
  "SKILL_TEMPLATE skill_name' skill_title =
     ''---\<newline>'' @
     ''name: '' @ skill_name' @ ''\<newline>'' @
     ''description: '' @ PLACEHOLDER_DESCRIPTION @ ''\<newline>'' @
     ''---\<newline>'' @
     ''\<newline>'' @
     ''# '' @ skill_title @ TEMPLATE_SECTIONS"

definition EXAMPLE_SCRIPT :: string where
  "EXAMPLE_SCRIPT =
     ''#!/usr/bin/env python3\<newline>'' @
     [CHR 0x27, CHR 0x27, CHR 0x27] @
     ''\<newline>'' @
     ''Example script - Replace with your actual automation\<newline>'' @
     [CHR 0x27, CHR 0x27, CHR 0x27] @
     ''\<newline>'' @
     ''\<newline>'' @
     ''def main():\<newline>'' @
     ''    print('' @
     [CHR 0x22] @
     ''Example script - customize for your skill'' @
     [CHR 0x27] @
     ''s needs'' @
     [CHR 0x22] @
     '')\<newline>'' @
     ''\<newline>'' @
     ''if __name__ == '' @
     [CHR 0x27] @
     ''__main__'' @
     [CHR 0x27] @
     '':\<newline>'' @
     ''    main()\<newline>''"

definition EXAMPLE_REFERENCE :: string where
  "EXAMPLE_REFERENCE =
     ''# Example Reference Documentation\<newline>'' @
     ''\<newline>'' @
     ''TODO - Replace with detailed reference material for this skill\<newline>'' @
     ''\<newline>'' @
     ''## Section 1\<newline>'' @
     ''\<newline>'' @
     ''Detailed information...\<newline>'' @
     ''\<newline>'' @
     ''## Section 2\<newline>'' @
     ''\<newline>'' @
     ''More detailed information...\<newline>''"

definition EXAMPLE_ASSET :: string where
  "EXAMPLE_ASSET =
     ''# Example Asset\<newline>'' @
     ''\<newline>'' @
     ''This file represents a template or resource that will be used in the o'' @
     ''utput.\<newline>'' @
     ''Replace with your actual template/asset content.\<newline>''"

text \<open>
  How a script ends when it does not return: \<open>sys.exit\<close> after printing a message, or
  an exception nobody catches. The progress lines the scripts print are not modelled.
\<close>

datatype stop = SysExit nat message | Uncaught exn

text \<open>
  \<open>create_skill_structure\<close>. \<open>str.title\<close> is a parameter of the model: the title case
  of a letter can lie above U+00FF.
\<close>

definition create_skill_structure ::
  "(string \<Rightarrow> string) \<Rightarrow> string \<Rightarrow> path \<Rightarrow> filesystem \<Rightarrow> stop + filesystem" where
  "create_skill_structure title skill_name' output_path fs =
     (let skill_dir = slash output_path skill_name' in
      if exists fs skill_dir
      then Inl (SysExit 1 (Skill_directory_already_exists skill_dir))
      else
        (let skill_title = title (replace (CHR ''-'') '' '' skill_name');
             skill_md_content = SKILL_TEMPLATE skill_name' skill_title
         in case run_steps
              [mkdir True True skill_dir,
               write_text (joinpath skill_dir [''SKILL.md'']) skill_md_content,
               mkdir False True (joinpath skill_dir [''scripts'']),
               mkdir False True (joinpath skill_dir [''references'']),
               mkdir False True (joinpath skill_dir [''assets'']),
               write_text (joinpath skill_dir [''scripts'', ''example.py'']) EXAMPLE_SCRIPT,
               chmod (joinpath skill_dir [''scripts'', ''example.py'']),
               write_text (joinpath skill_dir [''references'', ''example.md''])
                 EXAMPLE_REFERENCE,
               write_text (joinpath skill_dir [''assets'', ''example-template.md''])
                 EXAMPLE_ASSET,
               touch (joinpath skill_dir [''scripts'', ''.gitkeep''])] fs of
              Inl e \<Rightarrow> Inl (Uncaught e)
            | Inr fs' \<Rightarrow> Inr fs'))"

text \<open>The name check of \<open>main\<close> (line 167).\<close>

definition name_accepted :: "string \<Rightarrow> bool" where
  "name_accepted skill_name' = isalnum (replace (CHR ''_'') [] (replace (CHR ''-'') [] skill_name'))"

text \<open>
  \<open>main\<close> of init_skill.py, from the parsed arguments: the name and the \<open>--path\<close>
  option, whose default is \<open>Path.cwd() / ".github" / "skills"\<close>.
\<close>

definition init_main ::
  "(string \<Rightarrow> string) \<Rightarrow> string \<Rightarrow> path option \<Rightarrow> filesystem \<Rightarrow> stop + filesystem" where
  "init_main title skill_name' path_arg fs =
     (let path = (case path_arg of
                    None \<Rightarrow> Path True (cwd fs @ [''.github'', ''skills''])
                  | Some p \<Rightarrow> p) in
      if \<not> name_accepted skill_name' then Inl (SysExit 1 Name_should_only_contain)
      else create_skill_structure title skill_name' path fs)"

section \<open>The packager (package_skill.py)\<close>

record packager =
  pk_skill_path :: path
  pk_skill_name :: string
  output_dir :: path

text \<open>\<open>SkillPackager.__init__\<close>\<close>

definition SkillPackager :: "path \<Rightarrow> path \<Rightarrow> packager" where
  "SkillPackager p out = \<lparr>pk_skill_path = p, pk_skill_name = name p, output_dir = out\<rparr>"

text \<open>
  The loop of \<open>package\<close>: every path of the walk that is a file becomes an entry, under
  its path relative to the skill directory, with the bytes of the file.
\<close>

definition archive_entries :: "filesystem \<Rightarrow> path \<Rightarrow> (path \<times> string) list" where
  "archive_entries fs p =
     concat (map (\<lambda>f. case stat fs f of
                         Some (File b) \<Rightarrow> [(relative_to f p, b)]
                       | _ \<Rightarrow> [])
               (rglob fs p))"

text \<open>
  \<open>package\<close>. The bytes \<open>zipfile\<close> writes for a list of entries are a parameter of the
  model (\<open>zip_bytes\<close>). Opening the archive for writing makes it an empty file before
  the walk starts; the bytes are taken to reach the file when the archive is closed.
\<close>

definition package ::
  "((path \<times> string) list \<Rightarrow> string) \<Rightarrow> filesystem \<Rightarrow> packager \<Rightarrow> exn + (path \<times> filesystem)" where
  "package zip_bytes fs self =
     (case mkdir True True (output_dir self) fs of
        Inl e \<Rightarrow> Inl e
      | Inr fs1 \<Rightarrow>
          (let package_path = joinpath (output_dir self) [pk_skill_name self @ ''.skill''] in
           case write_bytes package_path [] fs1 of
             Inl e \<Rightarrow> Inl e
           | Inr fs2 \<Rightarrow>
               (case write_bytes package_path
                       (zip_bytes (archive_entries fs2 (pk_skill_path self))) fs2 of
                  Inl e \<Rightarrow> Inl e
                | Inr fs3 \<Rightarrow> Inr (package_path, fs3))))"

text \<open>
  \<open>main\<close> of package_skill.py, from the parsed arguments: the skill path and the
  optional output directory, whose default is the parent of the skill path.
\<close>

definition package_main ::
  "(string \<Rightarrow> yaml_error + yaml) \<Rightarrow> ((path \<times> string) list \<Rightarrow> string) \<Rightarrow>
     path \<Rightarrow> path option \<Rightarrow> filesystem \<Rightarrow> stop + (path \<times> filesystem)" where
  "package_main safe_load zip_bytes skill_path_arg output_dir_arg fs =
     (let out = (case output_dir_arg of None \<Rightarrow> parent skill_path_arg | Some d \<Rightarrow> d) in
      case validate safe_load fs (SkillValidator skill_path_arg) of
        Inl e \<Rightarrow> Inl (Uncaught e)
      | Inr (is_valid, errs, warns) \<Rightarrow>
          (if errs \<noteq> [] then Inl (SysExit 1 Validation_failed)
           else (case package zip_bytes fs (SkillPackager skill_path_arg out) of
                   Inl e \<Rightarrow> Inl (Uncaught e)
                 | Inr r \<Rightarrow> Inr r)))"

section \<open>Vocabulary of the statements\<close>

text \<open>
  The first five checks of \<open>validate\<close>, those that run before the naming check.
\<close>

definition checks_before_naming ::
  "(string \<Rightarrow> yaml_error + yaml) \<Rightarrow> filesystem \<Rightarrow> check list" where
  "checks_before_naming safe_load fs =
     [validate_directory_exists fs,
      validate_skill_md_exists fs,
      validate_yaml_frontmatter safe_load fs,
      validate_skill_body fs,
      validate_resources fs]"

text \<open>The message \<open>x\<close> when the condition holds, nothing otherwise.\<close>

definition only_if :: "bool \<Rightarrow> 'a \<Rightarrow> 'a list" where
  "only_if b x = (if b then [x] else [])"

text \<open>
  What a check may change: it keeps the path and the name, and appends \<open>es\<close> to the
  errors and \<open>ws\<close> to the warnings.
\<close>

definition grows :: "validator \<Rightarrow> validator \<Rightarrow> message list \<Rightarrow> message list \<Rightarrow> bool" where
  "grows self self' es ws =
     (skill_path self' = skill_path self \<and> skill_name self' = skill_name self
      \<and> errors self' = errors self @ es \<and> warnings self' = warnings self @ ws)"

text \<open>A check keeps the name and the path, and adds no error of the naming check.\<close>

definition keeps :: "validator \<Rightarrow> validator \<Rightarrow> bool" where
  "keeps a b =
     (skill_name b = skill_name a \<and> skill_path b = skill_path a
      \<and> (\<forall>n. Cannot_contain_spaces n \<in> set (errors b) \<longrightarrow>
             Cannot_contain_spaces n \<in> set (errors a)))"

text \<open>Kinds of parsed values.\<close>

fun is_str :: "yaml \<Rightarrow> bool" where
  "is_str (YStr s) = True"
| "is_str v = False"

fun is_map :: "yaml \<Rightarrow> bool" where
  "is_map (YMap kvs) = True"
| "is_map v = False"

fun is_bytes :: "yaml \<Rightarrow> bool" where
  "is_bytes (YBytes s) = True"
| "is_bytes v = False"

definition empty_collection :: "yaml \<Rightarrow> bool" where
  "empty_collection v = (v = YSeq [] \<or> v = YMap [] \<or> v = YSet [])"

text \<open>A cased character is an uppercase or a lowercase one.\<close>

definition cased_char :: "char \<Rightarrow> bool" where
  "cased_char c = (isupper_char c \<or> islower_char c)"

text \<open>
  The errors of a document whose header has a name and the string description \<open>d\<close>,
  whose stripped body is \<open>body\<close>, in a directory called \<open>skill\<close>: each of the four
  content errors is there exactly when its condition holds, in the order of the checks.
\<close>

definition accumulated_errors :: "string \<Rightarrow> string \<Rightarrow> string \<Rightarrow> message list" where
  "accumulated_errors d body skill =
     only_if (length (strip d) < 20) Description_too_short
     @ only_if (contains ''TODO'' d) Description_contains_todo
     @ only_if (body = []) Body_is_empty
     @ only_if (CHR '' '' \<in> set skill) (Cannot_contain_spaces skill)"

text \<open>
  The name format as the specification words it, the regular expression
  \<open>^[A-Za-z0-9_-]+$\<close>: one or more characters, each an ASCII letter, an ASCII digit, an
  underscore or a hyphen. It is compared with \<open>name_accepted\<close>, the test of the source.
\<close>

definition spec_name_char :: "char \<Rightarrow> bool" where
  "spec_name_char c =
     (in_range 65 90 c \<or> in_range 97 122 c \<or> in_range 48 57 c
      \<or> c = CHR ''_'' \<or> c = CHR ''-'')"

definition spec_name_pattern :: "string \<Rightarrow> bool" where
  "spec_name_pattern s = (s \<noteq> [] \<and> list_all spec_name_char s)"

definition ascii_char :: "char \<Rightarrow> bool" where
  "ascii_char c = in_range 0 127 c"

text \<open>The directory \<open>main\<close> of init_skill.py creates the skill in.\<close>

definition target_directory :: "path option \<Rightarrow> filesystem \<Rightarrow> path" where
  "target_directory path_arg fs =
     (case path_arg of
        None \<Rightarrow> Path True (cwd fs @ [''.github'', ''skills''])
      | Some p \<Rightarrow> p)"

text \<open>
  The messages of the naming check, and a validator that holds none of them. A check is
  \<open>quiet\<close> when, run on a validator without naming messages, it leaves one without naming
  messages, whether it returns or raises, and raises no \<open>ValidationError\<close> with a naming
  message.
\<close>

fun naming_message :: "message \<Rightarrow> bool" where
  "naming_message (Should_be_lowercase n) = True"
| "naming_message (Should_use_hyphens n) = True"
| "naming_message (Cannot_contain_spaces n) = True"
| "naming_message m = False"

definition no_naming :: "validator \<Rightarrow> bool" where
  "no_naming self =
     (\<not> list_ex naming_message (errors self) \<and> \<not> list_ex naming_message (warnings self))"

fun raised_naming :: "exn \<Rightarrow> bool" where
  "raised_naming (ValidationError m) = naming_message m"
| "raised_naming e = False"

definition quiet :: "check \<Rightarrow> bool" where
  "quiet c =
     (\<forall>a. no_naming a \<longrightarrow>
        (case c a of
           Inr b \<Rightarrow> no_naming b
         | Inl (e, b) \<Rightarrow> no_naming b \<and> \<not> raised_naming e))"

text \<open>
  No file stands on the way to a directory: every component of the path that is there
  is a directory, so that \<open>mkdir(parents=True, exist_ok=True)\<close> has nothing to stumble on.
\<close>

fun clear_way :: "node \<Rightarrow> string list \<Rightarrow> bool" where
  "clear_way (File b) cs = False"
| "clear_way (Dir es) [] = True"
| "clear_way (Dir es) (c # cs) =
     (case map_of es c of None \<Rightarrow> True | Some ch \<Rightarrow> clear_way ch cs)"

section \<open>Sample inputs\<close>

text \<open>
  The parameters of the model need values where a statement is evaluated on a concrete
  input. \<open>safe_load_table\<close> is a parser that knows the listed documents only, each with
  the value \<open>yaml.safe_load\<close> returns for it; \<open>ascii_title\<close> is \<open>str.title\<close> on ASCII
  text; \<open>listing\<close> writes the entries of an archive one after the other.
\<close>

definition safe_load_table :: "(string \<times> yaml) list \<Rightarrow> string \<Rightarrow> yaml_error + yaml" where
  "safe_load_table docs text =
     (case map_of docs text of Some v \<Rightarrow> Inr v | None \<Rightarrow> Inl (YAMLError text))"

definition upper_ascii :: "char \<Rightarrow> char" where
  "upper_ascii c = (if in_range 97 122 c then char_of (of_char c - (32::nat)) else c)"

fun title_from :: "bool \<Rightarrow> string \<Rightarrow> string" where
  "title_from prev [] = []"
| "title_from prev (c # cs) =
     (if prev then lower_char c else upper_ascii c)
       # title_from (isupper_char c \<or> islower_char c) cs"

definition ascii_title :: "string \<Rightarrow> string" where
  "ascii_title s = title_from False s"


text \<open>
  Two file systems with the working directory \<open>/work\<close>: in \<open>bare_fs\<close> the skill
  directory holds one file and no \<open>SKILL.md\<close>, in \<open>skill_fs\<close> it holds \<open>SKILL.md\<close> with
  the given content.
\<close>

definition bare_fs :: "string \<Rightarrow> filesystem" where
  "bare_fs dir_name =
     \<lparr>root = Dir [(''work'', Dir [(dir_name, Dir [(''notes.txt'', File ''x'')])])],
      cwd = [''work'']\<rparr>"

definition skill_fs :: "string \<Rightarrow> string \<Rightarrow> filesystem" where
  "skill_fs dir_name content =
     \<lparr>root = Dir [(''work'', Dir [(dir_name, Dir [(''SKILL.md'', File content)])])],
      cwd = [''work'']\<rparr>"

text \<open>A metadata document: the header between the two markers, then the body.\<close>

definition document :: "string \<Rightarrow> string \<Rightarrow> string" where
  "document header body = ''---\<newline>'' @ header @ ''\<newline>---\<newline>'' @ body"

definition body_text :: string where
  "body_text = ''\<newline>Write the subject line first.\<newline>''"

text \<open>The headers of the examples, with what \<open>yaml.safe_load\<close> returns for each.\<close>

definition sample_safe_load :: "string \<Rightarrow> yaml_error + yaml" where
  "sample_safe_load = safe_load_table
     [(''name: commit-helper\<newline>description: Formats commit messages for the team.'',
       YMap [(YStr ''name'', YStr ''commit-helper''),
             (YStr ''description'', YStr ''Formats commit messages for the team.'')]),
      (''name: commit-helper\<newline>description: A nineteen-char txt'',
       YMap [(YStr ''name'', YStr ''commit-helper''),
             (YStr ''description'', YStr ''A nineteen-char txt'')]),
      (''name: commit-helper\<newline>description: A twenty-char text!!'',
       YMap [(YStr ''name'', YStr ''commit-helper''),
             (YStr ''description'', YStr ''A twenty-char text!!'')]),
      (''name: commit-helper\<newline>description: TODO'',
       YMap [(YStr ''name'', YStr ''commit-helper''), (YStr ''description'', YStr ''TODO'')]),
      (''name: commit-helper\<newline>description: []'',
       YMap [(YStr ''name'', YStr ''commit-helper''), (YStr ''description'', YSeq [])]),
      (''name: commit-helper\<newline>description: 42'',
       YMap [(YStr ''name'', YStr ''commit-helper''), (YStr ''description'', YInt 42)]),
      (''description: A nineteen-char txt'',
       YMap [(YStr ''description'', YStr ''A nineteen-char txt'')]),
      (''name: commit-helper'',
       YMap [(YStr ''name'', YStr ''commit-helper'')]),
      (''name: my-skill\<newline>description: '' @ PLACEHOLDER_DESCRIPTION,
       YMap [(YStr ''name'', YStr ''my-skill''),
             (YStr ''description'', YStr PLACEHOLDER_DESCRIPTION)])]"

section \<open>The checks, one by one\<close>

lemma run_checks_append:
  "run_checks (cs @ ds) self =
     (case run_checks cs self of Inl e \<Rightarrow> Inl e | Inr self' \<Rightarrow> run_checks ds self')"
  by (induction cs arbitrary: self) (auto split: sum.splits)

lemma all_checks_split:
  "all_checks safe_load fs = checks_before_naming safe_load fs @ [validate_naming_conventions]"
  by (simp add: all_checks_def checks_before_naming_def)

lemma grows_refl: "grows self self [] []"
  by (simp add: grows_def)

lemma grows_trans:
  "grows a b es ws \<Longrightarrow> grows b c es' ws' \<Longrightarrow> grows a c (es @ es') (ws @ ws')"
  by (simp add: grows_def)

lemma grows_fields:
  "grows a b es ws \<Longrightarrow>
     skill_name b = skill_name a \<and> skill_path b = skill_path a
     \<and> errors b = errors a @ es \<and> warnings b = warnings a @ ws"
  by (simp add: grows_def)

lemma grows_add_error: "grows self (add_error m self) [m] []"
  by (simp add: grows_def add_error_def)

lemma grows_add_warning: "grows self (add_warning m self) [] [m]"
  by (simp add: grows_def add_warning_def)

lemma check_description_str:
  "\<exists>self'. check_description (YStr d) self = Inr self'
     \<and> grows self self'
         (only_if (length (strip d) < 20) Description_too_short
          @ only_if (contains ''TODO'' d) Description_contains_todo) []"
  by (auto simp: check_description_def only_if_def grows_def add_error_def strip_def)

lemma check_frontmatter_str:
  assumes "map_of kvs (YStr ''name'') = Some nm"
      and "map_of kvs (YStr ''description'') = Some (YStr d)"
  shows "\<exists>self' ws. check_frontmatter (Inr (YMap kvs)) self = Inr self'
     \<and> grows self self'
         (only_if (length (strip d) < 20) Description_too_short
          @ only_if (contains ''TODO'' d) Description_contains_todo) ws"
proof -
  define self1 where "self1 =
    (if nm \<noteq> YStr (skill_name self)
     then add_warning (Name_does_not_match nm (skill_name self)) self else self)"
  obtain ws1 where g1: "grows self self1 [] ws1"
    unfolding self1_def using grows_refl grows_add_warning by (cases "nm \<noteq> YStr (skill_name self)") auto
  obtain self2 where d: "check_description (YStr d) self1 = Inr self2"
    and g2: "grows self1 self2
         (only_if (length (strip d) < 20) Description_too_short
          @ only_if (contains ''TODO'' d) Description_contains_todo) []"
    using check_description_str by blast
  define self3 where "self3 =
    (if extra_fields kvs \<noteq> [] then add_warning (Extra_fields (extra_fields kvs)) self2 else self2)"
  obtain ws3 where g3: "grows self2 self3 [] ws3"
    unfolding self3_def using grows_refl grows_add_warning by (cases "extra_fields kvs \<noteq> []") auto
  have "check_frontmatter (Inr (YMap kvs)) self = Inr self3"
    using assms d by (simp add: check_frontmatter_def self1_def self3_def Let_def)
  moreover have "grows self self3
         (only_if (length (strip d) < 20) Description_too_short
          @ only_if (contains ''TODO'' d) Description_contains_todo) (ws1 @ [] @ ws3)"
    using grows_trans [OF grows_trans [OF g1 g2] g3] by simp
  ultimately show ?thesis by blast
qed

lemma validate_skill_body_grows:
  assumes "read_text fs (joinpath (skill_path self) [''SKILL.md'']) = Inr content"
      and "split ''---'' 2 content = [p0, p1, p2]"
  shows "\<exists>self' ws. validate_skill_body fs self = Inr self'
     \<and> grows self self' (only_if (strip p2 = []) Body_is_empty) ws"
  using assms
  by (auto simp: validate_skill_body_def check_body_def only_if_def grows_def add_error_def
      add_warning_def Let_def)

lemma resources_step_grows:
  "\<exists>ws. grows (snd st) (snd (resources_step fs st d)) [] ws" for st :: "bool \<times> validator"
  by (auto simp: resources_step_def Let_def grows_def)

lemma foldl_resources_grows:
  fixes st :: "bool \<times> validator"
  shows "\<exists>ws. grows a (snd st) [] ws \<Longrightarrow>
    \<exists>ws. grows a (snd (foldl (resources_step fs) st ds)) [] ws"
proof (induction ds arbitrary: st)
  case Nil
  then show ?case by simp
next
  case (Cons d ds)
  obtain ws where g: "grows a (snd st) [] ws"
    using Cons.prems by blast
  obtain ws' where g': "grows (snd st) (snd (resources_step fs st d)) [] ws'"
    using resources_step_grows by blast
  have "grows a (snd (resources_step fs st d)) [] (ws @ ws')"
    using grows_trans [OF g g'] by simp
  then have "\<exists>ws. grows a (snd (resources_step fs st d)) [] ws"
    by blast
  from Cons.IH [OF this] show ?case by simp
qed

lemma validate_resources_grows:
  "\<exists>self' ws. validate_resources fs self = Inr self' \<and> grows self self' [] ws"
proof -
  define st where "st = foldl (resources_step fs) (False, self)
      [''scripts'', ''references'', ''assets'']"
  have "\<exists>ws. grows self (snd st) [] ws"
    unfolding st_def by (rule foldl_resources_grows) (use grows_refl in auto)
  then obtain ws where g: "grows self (snd st) [] ws" by blast
  have v: "validate_resources fs self =
      Inr (if \<not> fst st then add_warning No_bundled_resources (snd st) else snd st)"
    by (simp add: validate_resources_def st_def Let_def del: foldl.simps)
  show ?thesis
  proof (cases "fst st")
    case True
    then show ?thesis using g v by auto
  next
    case False
    have "grows self (add_warning No_bundled_resources (snd st)) [] (ws @ [No_bundled_resources])"
      using grows_trans [OF g grows_add_warning] by simp
    then show ?thesis using False v by auto
  qed
qed

lemma validate_naming_grows:
  "\<exists>self'. validate_naming_conventions self = Inr self'
     \<and> grows self self'
         (only_if (CHR '' '' \<in> set (skill_name self)) (Cannot_contain_spaces (skill_name self)))
         (only_if (\<not> islower (skill_name self)) (Should_be_lowercase (skill_name self))
          @ only_if (CHR ''_'' \<in> set (skill_name self)) (Should_use_hyphens (skill_name self)))"
  by (auto simp: validate_naming_conventions_def only_if_def grows_def add_error_def
      add_warning_def Let_def)

lemma lookup_append:
  "lookup n (xs @ ys) = (case lookup n xs of None \<Rightarrow> None | Some m \<Rightarrow> lookup m ys)"
  by (induction n xs rule: lookup.induct) (auto split: option.splits)

lemma locate_joinpath: "locate fs (joinpath p cs) = locate fs p @ cs"
  by (simp add: locate_def joinpath_def)

lemma read_text_is_dir:
  assumes "read_text fs (joinpath p [c]) = Inr content"
  shows "is_dir fs p" and "exists fs p" and "exists fs (joinpath p [c])"
proof -
  obtain b where b: "lookup (root fs) (locate fs p @ [c]) = Some (File b)"
    using assms
    by (auto simp: read_text_def stat_def locate_joinpath split: option.splits node.splits)
  then obtain m where m: "lookup (root fs) (locate fs p) = Some m" and c: "lookup m [c] = Some (File b)"
    by (auto simp: lookup_append split: option.splits)
  from c obtain es where "m = Dir es" by (cases m) auto
  with m show "is_dir fs p" and "exists fs p"
    by (simp_all add: is_dir_def exists_def stat_def)
  from b show "exists fs (joinpath p [c])"
    by (simp add: exists_def stat_def locate_joinpath)
qed

lemma SkillValidator_fields [simp]:
  "skill_path (SkillValidator p) = p" "skill_name (SkillValidator p) = name p"
  "errors (SkillValidator p) = []" "warnings (SkillValidator p) = []"
  by (simp_all add: SkillValidator_def)

lemma report_halt:
  "report (add_error m (SkillValidator p)) = (False, [m], [])"
  by (simp add: report_def add_error_def)

lemma halts_no_directory:
  "\<not> exists fs p \<Longrightarrow>
     validate safe_load fs (SkillValidator p) = Inr (False, [Directory_does_not_exist p], [])"
  by (simp add: validate_def all_checks_def validate_directory_exists_def report_halt)

lemma halts_not_a_directory:
  "exists fs p \<Longrightarrow> \<not> is_dir fs p \<Longrightarrow>
     validate safe_load fs (SkillValidator p) = Inr (False, [Path_is_not_a_directory p], [])"
  by (simp add: validate_def all_checks_def validate_directory_exists_def report_halt)

lemma halts_no_skill_md:
  "is_dir fs p \<Longrightarrow> \<not> exists fs (joinpath p [''SKILL.md'']) \<Longrightarrow>
     validate safe_load fs (SkillValidator p) = Inr (False, [Skill_md_not_found], [])"
  by (auto simp: validate_def all_checks_def validate_directory_exists_def
      validate_skill_md_exists_def report_halt is_dir_def exists_def split: option.splits)

text \<open>With the document read, the first two checks pass.\<close>

lemma run_from_frontmatter:
  assumes "read_text fs (joinpath p [''SKILL.md'']) = Inr content"
  shows "run_checks (all_checks safe_load fs) (SkillValidator p) =
     (case validate_yaml_frontmatter safe_load fs (SkillValidator p) of
        Inl e \<Rightarrow> Inl e
      | Inr s \<Rightarrow> run_checks [validate_skill_body fs, validate_resources fs,
                    validate_naming_conventions] s)"
  using read_text_is_dir [OF assms]
  by (simp add: all_checks_def validate_directory_exists_def validate_skill_md_exists_def)

lemma frontmatter_parsed:
  assumes "read_text fs (joinpath (skill_path self) [''SKILL.md'']) = Inr content"
      and "startswith content ''---''"
      and "split ''---'' 2 content = [p0, p1, p2]"
  shows "validate_yaml_frontmatter safe_load fs self = check_frontmatter (safe_load (strip p1)) self"
  using assms by (simp add: validate_yaml_frontmatter_def Let_def)

lemma halts_no_opening_marker:
  assumes "read_text fs (joinpath p [''SKILL.md'']) = Inr content"
      and "\<not> startswith content ''---''"
  shows "validate safe_load fs (SkillValidator p) = Inr (False, [Must_start_with_frontmatter], [])"
  using assms
  by (simp add: validate_def run_from_frontmatter [OF assms(1)] validate_yaml_frontmatter_def
      report_halt)

lemma halts_no_closing_marker:
  assumes "read_text fs (joinpath p [''SKILL.md'']) = Inr content"
      and "startswith content ''---''"
      and "length (split ''---'' 2 content) < 3"
  shows "validate safe_load fs (SkillValidator p) = Inr (False, [Must_have_closing_marker], [])"
  using assms
  by (simp add: validate_def run_from_frontmatter [OF assms(1)] validate_yaml_frontmatter_def
      report_halt Let_def)

lemma validate_of_frontmatter:
  assumes "read_text fs (joinpath p [''SKILL.md'']) = Inr content"
      and "startswith content ''---''"
      and "split ''---'' 2 content = [p0, p1, p2]"
  shows "validate safe_load fs (SkillValidator p) =
     (case check_frontmatter (safe_load (strip p1)) (SkillValidator p) of
        Inl (ValidationError m, s) \<Rightarrow> Inr (report (add_error m s))
      | Inl (e, s) \<Rightarrow> Inl e
      | Inr s \<Rightarrow>
          (case run_checks [validate_skill_body fs, validate_resources fs,
                  validate_naming_conventions] s of
             Inl (ValidationError m, s') \<Rightarrow> Inr (report (add_error m s'))
           | Inl (e, s') \<Rightarrow> Inl e
           | Inr s' \<Rightarrow> Inr (report s')))"
  using frontmatter_parsed [of fs "SkillValidator p" content p0 p1 p2 safe_load] assms
  by (simp add: validate_def run_from_frontmatter [OF assms(1)] split: sum.splits)

lemma halts_invalid_yaml:
  assumes "read_text fs (joinpath p [''SKILL.md'']) = Inr content"
      and "startswith content ''---''"
      and "split ''---'' 2 content = [p0, p1, p2]"
      and "safe_load (strip p1) = Inl e"
  shows "validate safe_load fs (SkillValidator p) = Inr (False, [Invalid_yaml_frontmatter e], [])"
  by (simp add: validate_of_frontmatter [OF assms(1-3)] assms(4) check_frontmatter_def report_halt)

lemma halts_not_a_dictionary:
  assumes "read_text fs (joinpath p [''SKILL.md'']) = Inr content"
      and "startswith content ''---''"
      and "split ''---'' 2 content = [p0, p1, p2]"
      and "safe_load (strip p1) = Inr v"
      and "\<not> is_map v"
  shows "validate safe_load fs (SkillValidator p) = Inr (False, [Frontmatter_must_be_dictionary], [])"
proof -
  have "check_frontmatter (Inr v) (SkillValidator p) =
      Inl (ValidationError Frontmatter_must_be_dictionary, SkillValidator p)"
    using assms(5) by (cases v) (simp_all add: check_frontmatter_def)
  then show ?thesis
    by (simp add: validate_of_frontmatter [OF assms(1-3)] assms(4) report_halt)
qed

lemma halts_no_name:
  assumes "read_text fs (joinpath p [''SKILL.md'']) = Inr content"
      and "startswith content ''---''"
      and "split ''---'' 2 content = [p0, p1, p2]"
      and "safe_load (strip p1) = Inr (YMap kvs)"
      and "map_of kvs (YStr ''name'') = None"
  shows "validate safe_load fs (SkillValidator p) = Inr (False, [Must_include_name], [])"
  by (simp add: validate_of_frontmatter [OF assms(1-3)] assms(4,5) check_frontmatter_def report_halt)

lemma halts_no_description:
  assumes "read_text fs (joinpath p [''SKILL.md'']) = Inr content"
      and "startswith content ''---''"
      and "split ''---'' 2 content = [p0, p1, p2]"
      and "safe_load (strip p1) = Inr (YMap kvs)"
      and "map_of kvs (YStr ''name'') = Some nm"
      and "map_of kvs (YStr ''description'') = None"
  shows "validate safe_load fs (SkillValidator p) = Inr (False, [Must_include_description], [])"
  by (simp add: validate_of_frontmatter [OF assms(1-3)] assms(4-6) check_frontmatter_def report_halt)

text \<open>The three checks after the header all run, whatever they find.\<close>

lemma later_checks_run:
  assumes "read_text fs (joinpath (skill_path s) [''SKILL.md'']) = Inr content"
      and "split ''---'' 2 content = [p0, p1, p2]"
  shows "\<exists>s' ws. run_checks [validate_skill_body fs, validate_resources fs,
             validate_naming_conventions] s = Inr s'
     \<and> grows s s'
         (only_if (strip p2 = []) Body_is_empty
          @ only_if (CHR '' '' \<in> set (skill_name s)) (Cannot_contain_spaces (skill_name s)))
         (ws @ only_if (\<not> islower (skill_name s)) (Should_be_lowercase (skill_name s))
          @ only_if (CHR ''_'' \<in> set (skill_name s)) (Should_use_hyphens (skill_name s)))"
proof -
  obtain s1 ws1 where b: "validate_skill_body fs s = Inr s1"
    and g1: "grows s s1 (only_if (strip p2 = []) Body_is_empty) ws1"
    using validate_skill_body_grows [OF assms] by blast
  obtain s2 ws2 where r: "validate_resources fs s1 = Inr s2" and g2: "grows s1 s2 [] ws2"
    using validate_resources_grows by blast
  have n2: "skill_name s2 = skill_name s"
    using g1 g2 by (simp add: grows_def)
  obtain s3 where n: "validate_naming_conventions s2 = Inr s3"
    and g3: "grows s2 s3
         (only_if (CHR '' '' \<in> set (skill_name s)) (Cannot_contain_spaces (skill_name s)))
         (only_if (\<not> islower (skill_name s)) (Should_be_lowercase (skill_name s))
          @ only_if (CHR ''_'' \<in> set (skill_name s)) (Should_use_hyphens (skill_name s)))"
    using validate_naming_grows [of s2] by (auto simp: n2)
  have "run_checks [validate_skill_body fs, validate_resources fs,
             validate_naming_conventions] s = Inr s3"
    using b r n by simp
  moreover have "grows s s3
         (only_if (strip p2 = []) Body_is_empty
          @ only_if (CHR '' '' \<in> set (skill_name s)) (Cannot_contain_spaces (skill_name s)))
         ((ws1 @ ws2) @ only_if (\<not> islower (skill_name s)) (Should_be_lowercase (skill_name s))
          @ only_if (CHR ''_'' \<in> set (skill_name s)) (Should_use_hyphens (skill_name s)))"
    using grows_trans [OF grows_trans [OF g1 g2] g3] by simp
  ultimately show ?thesis by blast
qed

lemma validate_accumulates:
  assumes "read_text fs (joinpath p [''SKILL.md'']) = Inr content"
      and "startswith content ''---''"
      and "split ''---'' 2 content = [p0, p1, p2]"
      and "safe_load (strip p1) = Inr (YMap kvs)"
      and "map_of kvs (YStr ''name'') = Some nm"
      and "map_of kvs (YStr ''description'') = Some (YStr d)"
  shows "\<exists>ws. validate safe_load fs (SkillValidator p) =
     Inr (accumulated_errors d (strip p2) (name p) = [],
          accumulated_errors d (strip p2) (name p), ws)"
proof -
  obtain s1 ws1 where f: "check_frontmatter (Inr (YMap kvs)) (SkillValidator p) = Inr s1"
    and g1: "grows (SkillValidator p) s1
         (only_if (length (strip d) < 20) Description_too_short
          @ only_if (contains ''TODO'' d) Description_contains_todo) ws1"
    using check_frontmatter_str [OF assms(5,6)] by blast
  have sp: "skill_path s1 = p" and sn: "skill_name s1 = name p"
    using g1 by (simp_all add: grows_def)
  obtain s2 ws2 where r: "run_checks [validate_skill_body fs, validate_resources fs,
             validate_naming_conventions] s1 = Inr s2"
    and g2: "grows s1 s2
         (only_if (strip p2 = []) Body_is_empty
          @ only_if (CHR '' '' \<in> set (name p)) (Cannot_contain_spaces (name p))) ws2"
    using later_checks_run [of fs s1 content p0 p1 p2] assms(1,3) sp sn by auto
  have e: "errors s2 = accumulated_errors d (strip p2) (name p)"
    using g1 g2 by (simp add: grows_def accumulated_errors_def)
  have "validate safe_load fs (SkillValidator p) = Inr (report s2)"
    using f r by (simp add: validate_of_frontmatter [OF assms(1-3)] assms(4))
  then show ?thesis
    by (simp add: report_def e)
qed

lemma keeps_refl: "keeps a a"
  by (simp add: keeps_def)

lemma keeps_trans: "keeps a b \<Longrightarrow> keeps b c \<Longrightarrow> keeps a c"
  by (simp add: keeps_def)

lemma keeps_directory: "validate_directory_exists fs a = Inr b \<Longrightarrow> keeps a b"
  by (auto simp: validate_directory_exists_def keeps_def split: if_splits)

lemma keeps_skill_md: "validate_skill_md_exists fs a = Inr b \<Longrightarrow> keeps a b"
  by (auto simp: validate_skill_md_exists_def keeps_def split: if_splits)

lemma keeps_description: "check_description v a = Inr b \<Longrightarrow> keeps a b"
  by (auto simp: check_description_def keeps_def add_error_def Let_def
      split: sum.splits if_splits)

lemma keeps_check_frontmatter: "check_frontmatter parsed a = Inr b \<Longrightarrow> keeps a b"
proof -
  assume r: "check_frontmatter parsed a = Inr b"
  then obtain kvs nm d where p: "parsed = Inr (YMap kvs)"
    and nm: "map_of kvs (YStr ''name'') = Some nm"
    and d: "map_of kvs (YStr ''description'') = Some d"
    by (auto simp: check_frontmatter_def split: sum.splits yaml.splits option.splits)
  define a1 where "a1 = (if nm \<noteq> YStr (skill_name a)
      then add_warning (Name_does_not_match nm (skill_name a)) a else a)"
  have k1: "keeps a a1"
    by (simp add: a1_def keeps_def add_warning_def)
  from r p nm d obtain a2 where c: "check_description d a1 = Inr a2"
    and b: "b = (if extra_fields kvs \<noteq> []
        then add_warning (Extra_fields (extra_fields kvs)) a2 else a2)"
    by (auto simp: check_frontmatter_def a1_def Let_def split: sum.splits)
  have k2: "keeps a1 a2"
    using c by (rule keeps_description)
  have k3: "keeps a2 b"
    by (simp add: b keeps_def add_warning_def)
  show "keeps a b"
    using keeps_trans [OF keeps_trans [OF k1 k2] k3] .
qed

lemma keeps_frontmatter: "validate_yaml_frontmatter safe_load fs a = Inr b \<Longrightarrow> keeps a b"
  by (auto simp: validate_yaml_frontmatter_def Let_def
      split: sum.splits if_splits intro: keeps_check_frontmatter)

lemma keeps_body: "validate_skill_body fs a = Inr b \<Longrightarrow> keeps a b"
  by (auto simp: validate_skill_body_def check_body_def keeps_def add_error_def
      add_warning_def Let_def split: sum.splits if_splits)

lemma keeps_resources: "validate_resources fs a = Inr b \<Longrightarrow> keeps a b"
  using validate_resources_grows [of fs a] by (auto simp: grows_def keeps_def)

lemma keeps_before_naming:
  assumes "run_checks (checks_before_naming safe_load fs) a = Inr b"
  shows "keeps a b"
proof -
  from assms obtain a1 a2 a3 a4 where
    "validate_directory_exists fs a = Inr a1"
    "validate_skill_md_exists fs a1 = Inr a2"
    "validate_yaml_frontmatter safe_load fs a2 = Inr a3"
    "validate_skill_body fs a3 = Inr a4"
    "validate_resources fs a4 = Inr b"
    by (auto simp: checks_before_naming_def split: sum.splits)
  then show ?thesis
    using keeps_directory keeps_skill_md keeps_frontmatter keeps_body keeps_resources
      keeps_trans by metis
qed

lemma validate_reaches_naming:
  assumes "run_checks (checks_before_naming safe_load fs) (SkillValidator p) = Inr s"
  shows "validate safe_load fs (SkillValidator p) =
     Inr (errors s @ only_if (CHR '' '' \<in> set (name p)) (Cannot_contain_spaces (name p)) = [],
          errors s @ only_if (CHR '' '' \<in> set (name p)) (Cannot_contain_spaces (name p)),
          warnings s
          @ only_if (\<not> islower (name p)) (Should_be_lowercase (name p))
          @ only_if (CHR ''_'' \<in> set (name p)) (Should_use_hyphens (name p)))"
proof -
  have n: "skill_name s = name p"
    using keeps_before_naming [OF assms] by (simp add: keeps_def)
  obtain s' where v: "validate_naming_conventions s = Inr s'"
    and g: "grows s s'
         (only_if (CHR '' '' \<in> set (name p)) (Cannot_contain_spaces (name p)))
         (only_if (\<not> islower (name p)) (Should_be_lowercase (name p))
          @ only_if (CHR ''_'' \<in> set (name p)) (Should_use_hyphens (name p)))"
    using validate_naming_grows [of s] by (auto simp: n)
  have "validate safe_load fs (SkillValidator p) = Inr (report s')"
    using assms v by (simp add: validate_def all_checks_split run_checks_append)
  then show ?thesis
    using g by (simp add: report_def grows_def)
qed

lemma check_description_raises:
  assumes "\<not> is_str v" and "\<not> empty_collection v"
  shows "\<exists>s. check_description v self =
     Inl (if truthy v \<and> \<not> is_bytes v then AttributeError else TypeError, s)"
proof (cases v)
  case (YFloat f)
  then show ?thesis by (cases f) (simp_all add: check_description_def)
next
  case (YSeq xs)
  then show ?thesis using assms(2) by (cases xs) (simp_all add: check_description_def empty_collection_def)
next
  case (YMap kvs)
  then show ?thesis using assms(2) by (cases kvs) (simp_all add: check_description_def empty_collection_def)
next
  case (YSet xs)
  then show ?thesis using assms(2) by (cases xs) (simp_all add: check_description_def empty_collection_def)
qed (use assms(1) in \<open>simp_all add: check_description_def\<close>)

lemma check_description_empty:
  assumes "empty_collection v"
  shows "check_description v self = Inr (add_error Description_too_short self)"
  using assms by (auto simp: empty_collection_def check_description_def)

lemma check_frontmatter_raises:
  assumes "map_of kvs (YStr ''name'') = Some nm"
      and "map_of kvs (YStr ''description'') = Some v"
      and "\<not> is_str v" and "\<not> empty_collection v"
  shows "\<exists>s. check_frontmatter (Inr (YMap kvs)) self =
     Inl (if truthy v \<and> \<not> is_bytes v then AttributeError else TypeError, s)"
proof -
  define self1 where "self1 = (if nm \<noteq> YStr (skill_name self)
      then add_warning (Name_does_not_match nm (skill_name self)) self else self)"
  obtain s where "check_description v self1 =
     Inl (if truthy v \<and> \<not> is_bytes v then AttributeError else TypeError, s)"
    using check_description_raises [OF assms(3,4)] by blast
  then have "check_frontmatter (Inr (YMap kvs)) self =
     Inl (if truthy v \<and> \<not> is_bytes v then AttributeError else TypeError, s)"
    using assms(1,2) by (simp add: check_frontmatter_def self1_def Let_def)
  then show ?thesis by blast
qed

lemma check_frontmatter_empty:
  assumes "map_of kvs (YStr ''name'') = Some nm"
      and "map_of kvs (YStr ''description'') = Some v"
      and "empty_collection v"
  shows "\<exists>s ws. check_frontmatter (Inr (YMap kvs)) self = Inr s
     \<and> grows self s [Description_too_short] ws"
proof -
  define self1 where "self1 = (if nm \<noteq> YStr (skill_name self)
      then add_warning (Name_does_not_match nm (skill_name self)) self else self)"
  obtain ws1 where g1: "grows self self1 [] ws1"
    unfolding self1_def using grows_refl grows_add_warning
    by (cases "nm \<noteq> YStr (skill_name self)") auto
  define self2 where "self2 = add_error Description_too_short self1"
  have g2: "grows self1 self2 [Description_too_short] []"
    unfolding self2_def by (rule grows_add_error)
  define self3 where "self3 = (if extra_fields kvs \<noteq> []
      then add_warning (Extra_fields (extra_fields kvs)) self2 else self2)"
  obtain ws3 where g3: "grows self2 self3 [] ws3"
    unfolding self3_def using grows_refl grows_add_warning
    by (cases "extra_fields kvs \<noteq> []") auto
  have "check_frontmatter (Inr (YMap kvs)) self = Inr self3"
    using assms(1,2) check_description_empty [OF assms(3), of self1]
    by (simp add: check_frontmatter_def self1_def self2_def self3_def Let_def)
  moreover have "grows self self3 [Description_too_short] (ws1 @ [] @ ws3)"
    using grows_trans [OF grows_trans [OF g1 g2] g3] by simp
  ultimately show ?thesis by blast
qed

section \<open>A halted run holds no message of the naming check\<close>

lemma quiet_directory: "quiet (validate_directory_exists fs)"
  by (simp add: quiet_def validate_directory_exists_def)

lemma quiet_skill_md: "quiet (validate_skill_md_exists fs)"
  by (simp add: quiet_def validate_skill_md_exists_def)

lemma no_naming_add_error: "no_naming a \<Longrightarrow> \<not> naming_message m \<Longrightarrow> no_naming (add_error m a)"
  by (simp add: no_naming_def add_error_def)

lemma no_naming_add_warning: "no_naming a \<Longrightarrow> \<not> naming_message m \<Longrightarrow> no_naming (add_warning m a)"
  by (simp add: no_naming_def add_warning_def)

lemma stripped_len_raises: "stripped_len v = Inl e \<Longrightarrow> e = AttributeError"
  by (cases v) auto

lemma todo_in_raises: "todo_in v = Inl e \<Longrightarrow> e = TypeError"
  by (cases v) auto

lemma quiet_description: "quiet (check_description v)"
  by (auto simp: quiet_def check_description_def Let_def no_naming_add_error
      dest!: stripped_len_raises todo_in_raises split: sum.splits)

lemma quiet_check_frontmatter: "quiet (check_frontmatter parsed)"
proof -
  have "case check_frontmatter parsed a of
           Inr b \<Rightarrow> no_naming b
         | Inl (e, b) \<Rightarrow> no_naming b \<and> \<not> raised_naming e" if a: "no_naming a" for a
  proof (cases parsed)
    case (Inl e)
    then show ?thesis using a by (simp add: check_frontmatter_def)
  next
    case (Inr v)
    show ?thesis
    proof (cases "is_map v")
      case False
      then show ?thesis using a Inr by (cases v) (simp_all add: check_frontmatter_def)
    next
      case True
      then obtain kvs where v: "v = YMap kvs" by (cases v) simp_all
      show ?thesis
      proof (cases "map_of kvs (YStr ''name'')")
        case None
        then show ?thesis using a Inr v by (simp add: check_frontmatter_def)
      next
        case (Some nm)
        note nm = this
        show ?thesis
        proof (cases "map_of kvs (YStr ''description'')")
          case None
          then show ?thesis using a Inr v nm by (simp add: check_frontmatter_def)
        next
          case (Some d)
          define a1 where "a1 =
            (if nm \<noteq> YStr (skill_name a)
             then add_warning (Name_does_not_match nm (skill_name a)) a else a)"
          have a1: "no_naming a1"
            unfolding a1_def using a by (simp add: no_naming_add_warning)
          have q: "case check_description d a1 of
               Inr b \<Rightarrow> no_naming b
             | Inl (e, b) \<Rightarrow> no_naming b \<and> \<not> raised_naming e"
            using quiet_description [of d] a1 by (simp add: quiet_def)
          have "check_frontmatter parsed a =
              (case check_description d a1 of
                 Inl e \<Rightarrow> Inl e
               | Inr self2 \<Rightarrow>
                   Inr (if extra_fields kvs \<noteq> []
                        then add_warning (Extra_fields (extra_fields kvs)) self2
                        else self2))"
            using Inr v nm Some by (simp add: check_frontmatter_def a1_def Let_def)
          then show ?thesis
            using q by (auto simp: no_naming_add_warning split: sum.splits)
        qed
      qed
    qed
  qed
  then show ?thesis by (simp add: quiet_def)
qed

lemma quiet_frontmatter: "quiet (validate_yaml_frontmatter safe_load fs)"
proof -
  have "case validate_yaml_frontmatter safe_load fs a of
           Inr b \<Rightarrow> no_naming b
         | Inl (e, b) \<Rightarrow> no_naming b \<and> \<not> raised_naming e" if a: "no_naming a" for a
  proof -
    have q: "case check_frontmatter parsed a of
           Inr b \<Rightarrow> no_naming b
         | Inl (e, b) \<Rightarrow> no_naming b \<and> \<not> raised_naming e" for parsed
      using quiet_check_frontmatter [of parsed] a by (simp add: quiet_def)
    have r: "\<not> raised_naming e"
      if "read_text fs (joinpath (skill_path a) [''SKILL.md'']) = Inl e" for e
      using that by (auto simp: read_text_def split: option.splits node.splits if_splits)
    show ?thesis
    proof (cases "read_text fs (joinpath (skill_path a) [''SKILL.md''])")
      case (Inl e)
      then show ?thesis using a r by (simp add: validate_yaml_frontmatter_def)
    next
      case (Inr content)
      show ?thesis
        using a Inr q [of "safe_load (strip (split ''---'' 2 content ! 1))"]
        by (simp add: validate_yaml_frontmatter_def Let_def)
    qed
  qed
  then show ?thesis by (simp add: quiet_def)
qed

lemma quiet_body: "quiet (validate_skill_body fs)"
proof -
  have c: "no_naming (check_body body a)" if "no_naming a" for body a
    using that by (simp add: check_body_def Let_def no_naming_add_error no_naming_add_warning)
  have r: "\<not> raised_naming e"
    if "read_text fs (joinpath (skill_path a) [''SKILL.md'']) = Inl e" for e a
    using that by (auto simp: read_text_def split: option.splits node.splits if_splits)
  show ?thesis
    using c r by (auto simp: quiet_def validate_skill_body_def Let_def split: sum.splits)
qed

lemma example_warnings_no_naming: "\<not> list_ex naming_message (example_warnings base files)"
  by (auto simp: example_warnings_def list_ex_iff)

lemma resources_step_no_naming:
  fixes st :: "bool \<times> validator"
  shows "no_naming (snd st) \<Longrightarrow> no_naming (snd (resources_step fs st d))"
  using example_warnings_no_naming
  by (auto simp: resources_step_def Let_def no_naming_def)

lemma foldl_resources_no_naming:
  fixes st :: "bool \<times> validator"
  shows "no_naming (snd st) \<Longrightarrow> no_naming (snd (foldl (resources_step fs) st ds))"
  by (induction ds arbitrary: st) (simp_all add: resources_step_no_naming)

lemma quiet_resources: "quiet (validate_resources fs)"
proof -
  have "no_naming (snd (foldl (resources_step fs) (False, a) ds))" if "no_naming a" for a ds
    using foldl_resources_no_naming [of "(False, a)" fs ds] that by simp
  then show ?thesis
    by (simp add: quiet_def validate_resources_def Let_def no_naming_add_warning del: foldl.simps)
qed

lemma quietD:
  "quiet c \<Longrightarrow> no_naming a \<Longrightarrow>
     (case c a of Inr b \<Rightarrow> no_naming b | Inl (e, b) \<Rightarrow> no_naming b \<and> \<not> raised_naming e)"
  by (simp add: quiet_def)

lemma quiet_run_checks: "list_all quiet cs \<Longrightarrow> quiet (run_checks cs)"
proof (induction cs)
  case Nil
  then show ?case by (simp add: quiet_def)
next
  case (Cons c cs)
  have c: "quiet c"
    using Cons.prems by simp
  have "list_all quiet cs"
    using Cons.prems by simp
  then have cs: "quiet (run_checks cs)"
    by (rule Cons.IH)
  have "case run_checks (c # cs) a of
            Inr b \<Rightarrow> no_naming b
          | Inl (e, b) \<Rightarrow> no_naming b \<and> \<not> raised_naming e" if a: "no_naming a" for a
  proof (cases "c a")
    case (Inl eb)
    then show ?thesis using quietD [OF c a] by simp
  next
    case (Inr b)
    then have "no_naming b" using quietD [OF c a] by simp
    then show ?thesis using quietD [OF cs, of b] Inr by simp
  qed
  then show ?case
    unfolding quiet_def by blast
qed

lemma quiet_before_naming: "quiet (run_checks (checks_before_naming safe_load fs))"
  by (rule quiet_run_checks)
    (simp add: checks_before_naming_def quiet_directory quiet_skill_md quiet_frontmatter
      quiet_body quiet_resources)

lemma no_naming_SkillValidator: "no_naming (SkillValidator p)"
  by (simp add: no_naming_def SkillValidator_def)

lemma halted_before_naming:
  assumes "run_checks (checks_before_naming safe_load fs) (SkillValidator p)
             = Inl (ValidationError m, s)"
  shows "validate safe_load fs (SkillValidator p) = Inr (False, errors s @ [m], warnings s)"
    and "\<not> list_ex naming_message (errors s @ [m])"
    and "\<not> list_ex naming_message (warnings s)"
proof -
  show "validate safe_load fs (SkillValidator p) = Inr (False, errors s @ [m], warnings s)"
    using assms
    by (simp add: validate_def all_checks_split run_checks_append report_def add_error_def)
  have "no_naming s \<and> \<not> naming_message m"
    using quietD [OF quiet_before_naming no_naming_SkillValidator, of safe_load fs p] assms
    by simp
  then show "\<not> list_ex naming_message (errors s @ [m])"
    and "\<not> list_ex naming_message (warnings s)"
    by (simp_all add: no_naming_def)
qed

section \<open>The name test of the initializer\<close>

lemma replace_delete: "replace c [] s = filter (\<lambda>x. x \<noteq> c) s"
  by (induction s) (simp_all add: replace_def)

lemma hyphen_underscore_not_alnum:
  "\<not> isalnum_char (CHR ''-'')" "\<not> isalnum_char (CHR ''_'')"
  by (simp_all add: isalnum_char_def isupper_char_def islower_char_def in_range_def)

lemma filtered_all:
  "list_all P (filter (\<lambda>x. x \<noteq> u) (filter (\<lambda>x. x \<noteq> h) n))
     \<longleftrightarrow> list_all (\<lambda>c. P c \<or> c = h \<or> c = u) n"
  by (induction n) auto

lemma filtered_nonempty:
  assumes "\<not> P h" and "\<not> P u"
    and "list_all (\<lambda>c. P c \<or> c = h \<or> c = u) n"
  shows "filter (\<lambda>x. x \<noteq> u) (filter (\<lambda>x. x \<noteq> h) n) \<noteq> [] \<longleftrightarrow> list_ex P n"
  using assms by (induction n) auto

lemma name_accepted_iff:
  "name_accepted n \<longleftrightarrow>
     list_all (\<lambda>c. isalnum_char c \<or> c = CHR ''-'' \<or> c = CHR ''_'') n \<and> list_ex isalnum_char n"
proof -
  let ?f = "filter (\<lambda>x. x \<noteq> CHR ''_'') (filter (\<lambda>x. x \<noteq> CHR ''-'') n)"
  let ?A = "list_all (\<lambda>c. isalnum_char c \<or> c = CHR ''-'' \<or> c = CHR ''_'') n"
  have a: "name_accepted n \<longleftrightarrow> ?f \<noteq> [] \<and> list_all isalnum_char ?f"
    unfolding name_accepted_def isalnum_def replace_delete ..
  have b: "list_all isalnum_char ?f \<longleftrightarrow> ?A"
    by (rule filtered_all)
  have c: "?f \<noteq> [] \<longleftrightarrow> list_ex isalnum_char n" if "?A"
    using hyphen_underscore_not_alnum that by (rule filtered_nonempty)
  show ?thesis
    unfolding a b using c by blast
qed

lemma ascii_alnum:
  "ascii_char c \<Longrightarrow>
     isalnum_char c \<longleftrightarrow> in_range 65 90 c \<or> in_range 97 122 c \<or> in_range 48 57 c"
  by (auto simp: ascii_char_def isalnum_char_def isupper_char_def islower_char_def in_range_def)

lemma ascii_name_accepted:
  assumes "list_all ascii_char n"
  shows "name_accepted n \<longleftrightarrow> spec_name_pattern n \<and> list_ex isalnum_char n"
proof -
  have "(isalnum_char c \<or> c = CHR ''-'' \<or> c = CHR ''_'') = spec_name_char c"
    if "c \<in> set n" for c
  proof -
    have "ascii_char c"
      using assms that by (simp add: list_all_iff)
    then show ?thesis
      using ascii_alnum [of c] unfolding spec_name_char_def by blast
  qed
  then have "list_all (\<lambda>c. isalnum_char c \<or> c = CHR ''-'' \<or> c = CHR ''_'') n
      \<longleftrightarrow> list_all spec_name_char n"
    unfolding list_all_iff by blast
  moreover have "n \<noteq> []" if "list_ex isalnum_char n"
    using that by (cases n) simp_all
  ultimately show ?thesis
    unfolding name_accepted_iff spec_name_pattern_def by blast
qed

section \<open>Making directories and writing files\<close>

lemma map_of_snoc:
  "map_of (es @ [(c, x)]) k =
     (case map_of es k of None \<Rightarrow> (if k = c then Some x else None) | Some v \<Rightarrow> Some v)"
  by (induction es) auto

lemma fresh_lookup: "lookup (fresh cs) cs = Some (Dir [])"
  by (induction cs) simp_all







lemma locate_root_update: "locate (fs\<lparr>root := r\<rparr>) p = locate fs p"
  by (simp add: locate_def)






section \<open>What the archive is written from\<close>








section \<open>Strings\<close>

lemma universal_newlines_append:
  "CHR 0x0D \<notin> set a \<Longrightarrow> universal_newlines (a @ b) = a @ universal_newlines b"
proof (induction a)
  case Nil
  then show ?case by simp
next
  case (Cons x a)
  then have x: "x \<noteq> CHR 0x0D" and ih: "universal_newlines (a @ b) = a @ universal_newlines b"
    by auto
  show ?case
  proof (cases "a @ b")
    case Nil
    then show ?thesis using x by simp
  next
    case (Cons d cs)
    then have "universal_newlines (x # a @ b) = x # universal_newlines (a @ b)"
      using x by simp
    then show ?thesis using ih by simp
  qed
qed

lemma kept_by_dropWhile: "c \<in> set s \<Longrightarrow> \<not> P c \<Longrightarrow> c \<in> set (dropWhile P s)"
  by (induction s) auto

lemma strip_nonempty: "c \<in> set s \<Longrightarrow> \<not> isspace_char c \<Longrightarrow> strip s \<noteq> []"
proof -
  assume c: "c \<in> set s" and n: "\<not> isspace_char c"
  have "c \<in> set (dropWhile isspace_char s)"
    using c n by (rule kept_by_dropWhile)
  then have "c \<in> set (rev (dropWhile isspace_char s))"
    by simp
  then have "c \<in> set (dropWhile isspace_char (rev (dropWhile isspace_char s)))"
    using n by (rule kept_by_dropWhile)
  then obtain y ys where "dropWhile isspace_char (rev (dropWhile isspace_char s)) = y # ys"
    by (cases "dropWhile isspace_char (rev (dropWhile isspace_char s))") simp_all
  then show ?thesis
    by (simp add: strip_def)
qed

lemma strip_core:
  assumes "h \<noteq> []" and "\<not> isspace_char (hd h)" and "\<not> isspace_char (last h)"
      and "list_all isspace_char a" and "list_all isspace_char b"
  shows "strip (a @ h @ b) = h"
proof -
  have 1: "dropWhile isspace_char (a @ h @ b) = h @ b"
  proof -
    have "dropWhile isspace_char (a @ h @ b) = dropWhile isspace_char (h @ b)"
      by (rule dropWhile_append2) (use assms(4) in \<open>simp add: list_all_iff\<close>)
    also have "\<dots> = h @ b"
      using assms(1,2) by (cases h) simp_all
    finally show ?thesis .
  qed
  have 2: "dropWhile isspace_char (rev b @ rev h) = rev h"
  proof -
    have "dropWhile isspace_char (rev b @ rev h) = dropWhile isspace_char (rev h)"
      by (rule dropWhile_append2) (use assms(5) in \<open>simp add: list_all_iff\<close>)
    also have "\<dots> = rev h"
      using assms(1,3) by (cases "rev h") (simp_all add: last_rev [symmetric] hd_rev)
    finally show ?thesis .
  qed
  show ?thesis
    by (simp add: strip_def 1 2)
qed

lemma take_over_append:
  assumes "u \<noteq> []"
  shows "take (length sep) (u @ sep @ b) = take (length sep) (u @ butlast sep)"
proof (cases "sep = []")
  case True
  then show ?thesis by simp
next
  case False
  define k where "k = length sep - length u"
  have k: "k < length sep"
    using assms False by (cases u) (simp_all add: k_def)
  have "take k (sep @ b) = take k sep"
    using k by simp
  also have "\<dots> = take k (butlast sep)"
    using k by (simp add: take_butlast)
  finally show ?thesis
    by (simp add: k_def)
qed

lemma cut_found:
  assumes "sep \<noteq> []" and "\<not> contains sep (a @ butlast sep)"
  shows "cut sep (a @ sep @ b) = Some (a, b)"
  using assms(2)
proof (induction a)
  case Nil
  obtain c cs where s: "sep @ b = c # cs"
    using assms(1) by (cases "sep @ b") simp_all
  have "startswith (sep @ b) sep"
    by (simp add: startswith_def)
  then show ?case
    using s by (simp del: append_eq_Cons_conv) (metis append_eq_conv_conj)
next
  case (Cons x a)
  have n: "\<not> startswith (x # a @ butlast sep) sep" and c: "\<not> contains sep (a @ butlast sep)"
    using Cons.prems by simp_all
  have "take (length sep) ((x # a) @ sep @ b) = take (length sep) ((x # a) @ butlast sep)"
    by (rule take_over_append) simp
  then have "\<not> startswith (x # a @ sep @ b) sep"
    using n by (simp add: startswith_def)
  then show ?case
    using Cons.IH [OF c] by simp
qed

lemma contains_after:
  assumes "c \<noteq> CHR ''-''"
  shows "contains ''---'' (n @ c # rest) \<longleftrightarrow> contains ''---'' n \<or> contains ''---'' (c # rest)"
proof (induction n)
  case Nil
  then show ?case by simp
next
  case (Cons x n)
  have "startswith (x # n @ c # rest) ''---'' \<longleftrightarrow> startswith (x # n) ''---''"
  proof (cases n)
    case Nil
    then show ?thesis using assms by (auto simp: startswith_def)
  next
    case (Cons y n')
    then show ?thesis using assms by (cases n') (auto simp: startswith_def)
  qed
  then show ?case
    using Cons.IH by auto
qed

section \<open>The template of the initializer\<close>

lemma accepted_chars:
  assumes "name_accepted n"
  shows "n \<noteq> []" and "CHR ''/'' \<notin> set n" and "CHR '' '' \<notin> set n" and "CHR 0x0D \<notin> set n"
    and "n \<noteq> ''.''"
proof -
  have a: "\<forall>c \<in> set n. isalnum_char c \<or> c = CHR ''-'' \<or> c = CHR ''_''"
    and e: "list_ex isalnum_char n"
    using assms by (simp_all add: name_accepted_iff list_all_iff)
  have x: "\<not> isalnum_char (CHR ''/'')" "\<not> isalnum_char (CHR '' '')" "\<not> isalnum_char (CHR 0x0D)"
    "\<not> isalnum_char (CHR ''.'')"
    by (simp_all add: isalnum_char_def isupper_char_def islower_char_def in_range_def)
  show "n \<noteq> []" using e by auto
  show "CHR ''/'' \<notin> set n" using a x(1) by auto
  show "CHR '' '' \<notin> set n" using a x(2) by auto
  show "CHR 0x0D \<notin> set n" using a x(3) by auto
  show "n \<noteq> ''.''" using a x(4) by auto
qed

lemma fields_no_sep: "sep \<notin> set s \<Longrightarrow> path_fields sep s = [s]"
  by (induction s) auto

lemma slash_accepted:
  assumes "name_accepted n"
  shows "slash out n = joinpath out [n]"
proof -
  have "components n = [n]"
    using accepted_chars [OF assms] by (simp add: components_def fields_no_sep)
  moreover have "\<not> startswith n ''/''"
    using accepted_chars(1,2) [OF assms] by (cases n) (auto simp: startswith_def)
  ultimately show ?thesis
    by (simp add: slash_def joinpath_def)
qed

lemma name_joinpath: "name (joinpath out [n]) = n"
  by (simp add: name_def joinpath_def)

lemma placeholder_facts:
  "CHR 0x0D \<notin> set PLACEHOLDER_DESCRIPTION"
  "\<not> contains ''---'' (''\<newline>description: '' @ PLACEHOLDER_DESCRIPTION @ ''\<newline>--'')"
  "PLACEHOLDER_DESCRIPTION \<noteq> []"
  "\<not> isspace_char (last PLACEHOLDER_DESCRIPTION)"
  "\<not> length (strip PLACEHOLDER_DESCRIPTION) < 20"
  "contains ''TODO'' PLACEHOLDER_DESCRIPTION"
  by code_simp+

lemma template_read:
  assumes "name_accepted n"
  shows "universal_newlines (SKILL_TEMPLATE n t) =
     ''---'' @ (''\<newline>'' @ (''name: '' @ n @ ''\<newline>description: '' @ PLACEHOLDER_DESCRIPTION)
        @ ''\<newline>'') @ ''---''
       @ (''\<newline>\<newline># '' @ universal_newlines (t @ TEMPLATE_SECTIONS))"
proof -
  define a where "a = ''---\<newline>name: '' @ n @ ''\<newline>description: '' @ PLACEHOLDER_DESCRIPTION
      @ ''\<newline>---\<newline>\<newline># ''"
  have "CHR 0x0D \<notin> set a"
    using accepted_chars(4) [OF assms] placeholder_facts(1) by (simp add: a_def)
  then have "universal_newlines (a @ (t @ TEMPLATE_SECTIONS)) = a @ universal_newlines (t @ TEMPLATE_SECTIONS)"
    by (rule universal_newlines_append)
  moreover have "SKILL_TEMPLATE n t = a @ (t @ TEMPLATE_SECTIONS)"
    by (simp add: SKILL_TEMPLATE_def a_def)
  ultimately show ?thesis
    by (simp add: a_def)
qed

lemma template_split:
  assumes "\<not> contains ''---'' n"
  shows "split ''---'' 2
      (''---'' @ (''\<newline>'' @ (''name: '' @ n @ ''\<newline>description: '' @ PLACEHOLDER_DESCRIPTION)
        @ ''\<newline>'') @ ''---'' @ rest)
    = [[], ''\<newline>'' @ (''name: '' @ n @ ''\<newline>description: '' @ PLACEHOLDER_DESCRIPTION)
        @ ''\<newline>'', rest]"
proof -
  define mid where "mid = ''\<newline>'' @ (''name: '' @ n @ ''\<newline>description: '' @ PLACEHOLDER_DESCRIPTION)
        @ ''\<newline>''"
  have "\<not> contains ''---'' (n @ CHR ''\<newline>'' # (''description: '' @ PLACEHOLDER_DESCRIPTION @ ''\<newline>--''))"
    using assms placeholder_facts(2) by (simp add: contains_after)
  then have "\<not> contains ''---'' (mid @ butlast ''---'')"
    by (simp add: mid_def startswith_def)
  then have 2: "cut ''---'' (mid @ ''---'' @ rest) = Some (mid, rest)"
    by (intro cut_found) simp_all
  have 1: "cut ''---'' ([] @ ''---'' @ (mid @ ''---'' @ rest)) = Some ([], mid @ ''---'' @ rest)"
    by (intro cut_found) (simp_all add: startswith_def)
  have "split ''---'' (Suc (Suc 0)) (''---'' @ mid @ ''---'' @ rest) = [[], mid, rest]"
    using 1 2 by simp
  then show ?thesis
    by (simp add: mid_def numeral_2_eq_2)
qed

lemma header_strip:
  "strip (''\<newline>'' @ (''name: '' @ n @ ''\<newline>description: '' @ PLACEHOLDER_DESCRIPTION) @ ''\<newline>'')
     = ''name: '' @ n @ ''\<newline>description: '' @ PLACEHOLDER_DESCRIPTION"
proof (rule strip_core)
  show "''name: '' @ n @ ''\<newline>description: '' @ PLACEHOLDER_DESCRIPTION \<noteq> []"
    by simp
  show "\<not> isspace_char (hd (''name: '' @ n @ ''\<newline>description: '' @ PLACEHOLDER_DESCRIPTION))"
    by (simp add: isspace_char_def in_range_def)
  have "last (''name: '' @ n @ ''\<newline>description: '' @ PLACEHOLDER_DESCRIPTION)
      = last PLACEHOLDER_DESCRIPTION"
    using placeholder_facts(3) by simp
  then show "\<not> isspace_char (last (''name: '' @ n @ ''\<newline>description: '' @ PLACEHOLDER_DESCRIPTION))"
    using placeholder_facts(4) by simp
  show "list_all isspace_char ''\<newline>''" "list_all isspace_char ''\<newline>''"
    by (simp_all add: isspace_char_def in_range_def)
qed

lemma body_nonempty: "strip (''\<newline>\<newline># '' @ rest) \<noteq> []"
  by (rule strip_nonempty [of "CHR ''#''"]) (simp_all add: isspace_char_def in_range_def)

section \<open>The steps of the initializer\<close>

lemma clear_way_snoc:
  "clear_way m cs \<Longrightarrow> lookup m (cs @ [a]) = None \<Longrightarrow> clear_way m (cs @ [a])"
proof (induction cs arbitrary: m)
  case Nil
  then obtain es where m: "m = Dir es" by (cases m) simp_all
  then show ?case using Nil by (cases "map_of es a") simp_all
next
  case (Cons c cs)
  then obtain es where m: "m = Dir es" by (cases m) simp_all
  show ?case
  proof (cases "map_of es c")
    case None
    then show ?thesis using m by simp
  next
    case (Some ch)
    then show ?thesis using m Cons by simp
  qed
qed

lemma mkdir_node_new:
  "clear_way n cs \<Longrightarrow> lookup n cs = None \<Longrightarrow>
     \<exists>n'. mkdir_node True True n cs = Inr n' \<and> lookup n' cs = Some (Dir [])"
proof (induction cs arbitrary: n)
  case Nil
  then show ?case by simp
next
  case (Cons c cs)
  then obtain es where n: "n = Dir es" by (cases n) simp_all
  show ?case
  proof (cases "map_of es c")
    case None
    then show ?thesis using n by (simp add: fresh_lookup map_of_snoc del: map_of_append)
  next
    case (Some ch)
    then have "clear_way ch cs" "lookup ch cs = None"
      using Cons.prems n by simp_all
    then obtain ch' where "mkdir_node True True ch cs = Inr ch'" "lookup ch' cs = Some (Dir [])"
      using Cons.IH by blast
    then show ?thesis using n Some by (simp add: update_conv')
  qed
qed

lemma write_node_lift:
  "lookup n d = Some m \<Longrightarrow> write_node m rest b = Inr m' \<Longrightarrow>
     \<exists>n'. write_node n (d @ rest) b = Inr n' \<and> lookup n' d = Some m'"
proof (induction d arbitrary: n)
  case Nil
  then show ?case by simp
next
  case (Cons c d)
  then obtain es where n: "n = Dir es" by (cases n) simp_all
  then obtain ch where ch: "map_of es c = Some ch" and l: "lookup ch d = Some m"
    using Cons.prems(1) by (cases "map_of es c") simp_all
  obtain ch' where "write_node ch (d @ rest) b = Inr ch'" "lookup ch' d = Some m'"
    using Cons.IH [OF l Cons.prems(2)] by blast
  then show ?case using n ch by (simp add: update_conv')
qed

lemma mkdir_node_lift:
  "lookup n d = Some m \<Longrightarrow> mkdir_node par ok m rest = Inr m' \<Longrightarrow>
     \<exists>n'. mkdir_node par ok n (d @ rest) = Inr n' \<and> lookup n' d = Some m'"
proof (induction d arbitrary: n)
  case Nil
  then show ?case by simp
next
  case (Cons c d)
  then obtain es where n: "n = Dir es" by (cases n) simp_all
  then obtain ch where ch: "map_of es c = Some ch" and l: "lookup ch d = Some m"
    using Cons.prems(1) by (cases "map_of es c") simp_all
  obtain ch' where "mkdir_node par ok ch (d @ rest) = Inr ch'" "lookup ch' d = Some m'"
    using Cons.IH [OF l Cons.prems(2)] by blast
  then show ?case using n ch by (simp add: update_conv')
qed

lemma write_text_at:
  assumes "locate fs d = sd" and "lookup (root fs) sd = Some m"
      and "write_node m rest b = Inr m'"
  shows "\<exists>fs'. write_text (joinpath d rest) b fs = Inr fs' \<and> locate fs' d = sd
           \<and> lookup (root fs') sd = Some m'"
proof -
  obtain n' where "write_node (root fs) (sd @ rest) b = Inr n'" "lookup n' sd = Some m'"
    using write_node_lift [OF assms(2,3)] by blast
  then show ?thesis
    using assms(1)
    by (simp add: write_text_def write_bytes_def locate_joinpath locate_root_update)
qed

lemma mkdir_at:
  assumes "locate fs d = sd" and "lookup (root fs) sd = Some m"
      and "mkdir_node par ok m rest = Inr m'"
  shows "\<exists>fs'. mkdir par ok (joinpath d rest) fs = Inr fs' \<and> locate fs' d = sd
           \<and> lookup (root fs') sd = Some m'"
proof -
  obtain n' where "mkdir_node par ok (root fs) (sd @ rest) = Inr n'" "lookup n' sd = Some m'"
    using mkdir_node_lift [OF assms(2,3)] by blast
  then show ?thesis
    using assms(1)
    by (simp add: mkdir_def locate_joinpath locate_root_update)
qed

lemma chmod_at:
  assumes "locate fs d = sd" and "lookup (root fs) sd = Some m" and "lookup m rest = Some x"
  shows "chmod (joinpath d rest) fs = Inr fs"
  using assms by (simp add: chmod_def exists_def stat_def locate_joinpath lookup_append)

lemma touch_at:
  assumes "locate fs d = sd" and "lookup (root fs) sd = Some m" and "lookup m rest = None"
      and "write_node m rest [] = Inr m'"
  shows "\<exists>fs'. touch (joinpath d rest) fs = Inr fs' \<and> locate fs' d = sd
           \<and> lookup (root fs') sd = Some m'"
proof -
  have "\<not> exists fs (joinpath d rest)"
    using assms(1-3) by (simp add: exists_def stat_def locate_joinpath lookup_append)
  moreover obtain n' where "write_node (root fs) (sd @ rest) [] = Inr n'" "lookup n' sd = Some m'"
    using write_node_lift [OF assms(2,4)] by blast
  ultimately show ?thesis
    using assms(1)
    by (simp add: touch_def write_bytes_def locate_joinpath locate_root_update)
qed

lemma create_skill_structure_result:
  assumes acc: "name_accepted n"
      and way: "clear_way (root fs) (locate fs out)"
      and new: "\<not> exists fs (slash out n)"
  shows "\<exists>fs'. create_skill_structure title n out fs = Inr fs'
     \<and> read_text fs' (joinpath (slash out n) [''SKILL.md''])
         = Inr (universal_newlines (SKILL_TEMPLATE n (title (replace (CHR ''-'') '' '' n))))"
proof -
  define d where "d = joinpath out [n]"
  define sd where "sd = locate fs out @ [n]"
  define c where "c = SKILL_TEMPLATE n (title (replace (CHR ''-'') '' '' n))"
  have sl: "slash out n = d"
    using acc by (simp add: slash_accepted d_def)
  have l0: "locate fs d = sd"
    by (simp add: d_def sd_def locate_joinpath)
  have n0: "lookup (root fs) sd = None"
    using new by (simp add: sl exists_def stat_def l0)
  have "clear_way (root fs) sd"
    unfolding sd_def using way n0 [unfolded sd_def] by (rule clear_way_snoc)
  then obtain r1 where r1: "mkdir_node True True (root fs) sd = Inr r1"
    and e1: "lookup r1 sd = Some (Dir [])"
    using mkdir_node_new n0 by blast
  define fs1 where "fs1 = fs\<lparr>root := r1\<rparr>"
  have s1: "mkdir True True d fs = Inr fs1"
    using r1 by (simp add: mkdir_def l0 fs1_def)
  have l1: "locate fs1 d = sd" and t1: "lookup (root fs1) sd = Some (Dir [])"
    using l0 e1 by (simp_all add: fs1_def locate_root_update)
  define m1 where "m1 = Dir [(''SKILL.md'', File c)]"
  define m2 where "m2 = Dir [(''SKILL.md'', File c), (''scripts'', Dir [])]"
  define m3 where "m3 = Dir [(''SKILL.md'', File c), (''scripts'', Dir []), (''references'', Dir [])]"
  define m4 where "m4 = Dir [(''SKILL.md'', File c), (''scripts'', Dir []), (''references'', Dir []),
      (''assets'', Dir [])]"
  define m5 where "m5 = Dir [(''SKILL.md'', File c),
      (''scripts'', Dir [(''example.py'', File EXAMPLE_SCRIPT)]),
      (''references'', Dir []), (''assets'', Dir [])]"
  define m7 where "m7 = Dir [(''SKILL.md'', File c),
      (''scripts'', Dir [(''example.py'', File EXAMPLE_SCRIPT)]),
      (''references'', Dir [(''example.md'', File EXAMPLE_REFERENCE)]), (''assets'', Dir [])]"
  define m8 where "m8 = Dir [(''SKILL.md'', File c),
      (''scripts'', Dir [(''example.py'', File EXAMPLE_SCRIPT)]),
      (''references'', Dir [(''example.md'', File EXAMPLE_REFERENCE)]),
      (''assets'', Dir [(''example-template.md'', File EXAMPLE_ASSET)])]"
  define m9 where "m9 = Dir [(''SKILL.md'', File c),
      (''scripts'', Dir [(''example.py'', File EXAMPLE_SCRIPT), (''.gitkeep'', File [])]),
      (''references'', Dir [(''example.md'', File EXAMPLE_REFERENCE)]),
      (''assets'', Dir [(''example-template.md'', File EXAMPLE_ASSET)])]"
  have w2: "write_node (Dir []) [''SKILL.md''] c = Inr m1"
    by (simp add: m1_def)
  have w3: "mkdir_node False True m1 [''scripts''] = Inr m2"
    by (simp add: m1_def m2_def)
  have w4: "mkdir_node False True m2 [''references''] = Inr m3"
    by (simp add: m2_def m3_def)
  have w5: "mkdir_node False True m3 [''assets''] = Inr m4"
    by (simp add: m3_def m4_def)
  have w6: "write_node m4 [''scripts'', ''example.py''] EXAMPLE_SCRIPT = Inr m5"
    by (simp add: m4_def m5_def)
  have w7: "lookup m5 [''scripts'', ''example.py''] = Some (File EXAMPLE_SCRIPT)"
    by (simp add: m5_def)
  have w8: "write_node m5 [''references'', ''example.md''] EXAMPLE_REFERENCE = Inr m7"
    by (simp add: m5_def m7_def)
  have w9: "write_node m7 [''assets'', ''example-template.md''] EXAMPLE_ASSET = Inr m8"
    by (simp add: m7_def m8_def)
  have w10: "lookup m8 [''scripts'', ''.gitkeep''] = None"
    "write_node m8 [''scripts'', ''.gitkeep''] [] = Inr m9"
    by (simp_all add: m8_def m9_def)
  obtain fs2 where s2: "write_text (joinpath d [''SKILL.md'']) c fs1 = Inr fs2"
    and l2: "locate fs2 d = sd" and t2: "lookup (root fs2) sd = Some m1"
    using write_text_at [OF l1 t1 w2] by blast
  obtain fs3 where s3: "mkdir False True (joinpath d [''scripts'']) fs2 = Inr fs3"
    and l3: "locate fs3 d = sd" and t3: "lookup (root fs3) sd = Some m2"
    using mkdir_at [OF l2 t2 w3] by blast
  obtain fs4 where s4: "mkdir False True (joinpath d [''references'']) fs3 = Inr fs4"
    and l4: "locate fs4 d = sd" and t4: "lookup (root fs4) sd = Some m3"
    using mkdir_at [OF l3 t3 w4] by blast
  obtain fs5 where s5: "mkdir False True (joinpath d [''assets'']) fs4 = Inr fs5"
    and l5: "locate fs5 d = sd" and t5: "lookup (root fs5) sd = Some m4"
    using mkdir_at [OF l4 t4 w5] by blast
  obtain fs6 where s6: "write_text (joinpath d [''scripts'', ''example.py'']) EXAMPLE_SCRIPT fs5 = Inr fs6"
    and l6: "locate fs6 d = sd" and t6: "lookup (root fs6) sd = Some m5"
    using write_text_at [OF l5 t5 w6] by blast
  have s7: "chmod (joinpath d [''scripts'', ''example.py'']) fs6 = Inr fs6"
    using l6 t6 w7 by (rule chmod_at)
  obtain fs8 where s8: "write_text (joinpath d [''references'', ''example.md'']) EXAMPLE_REFERENCE fs6
      = Inr fs8"
    and l8: "locate fs8 d = sd" and t8: "lookup (root fs8) sd = Some m7"
    using write_text_at [OF l6 t6 w8] by blast
  obtain fs9 where s9: "write_text (joinpath d [''assets'', ''example-template.md'']) EXAMPLE_ASSET fs8
      = Inr fs9"
    and l9: "locate fs9 d = sd" and t9: "lookup (root fs9) sd = Some m8"
    using write_text_at [OF l8 t8 w9] by blast
  obtain fs10 where s10: "touch (joinpath d [''scripts'', ''.gitkeep'']) fs9 = Inr fs10"
    and l10: "locate fs10 d = sd" and t10: "lookup (root fs10) sd = Some m9"
    using touch_at [OF l9 t9 w10] by blast
  have "create_skill_structure title n out fs = Inr fs10"
    using new s1 s2 s3 s4 s5 s6 s7 s8 s9 s10
    by (simp add: create_skill_structure_def sl c_def [symmetric] Let_def)
  moreover have "read_text fs10 (joinpath d [''SKILL.md'']) = Inr (universal_newlines c)"
    using l10 t10 by (simp add: read_text_def stat_def locate_joinpath lookup_append m9_def)
  ultimately show ?thesis
    by (simp add: sl c_def)
qed

section \<open>The first run: init, then validate\<close>

text \<open>
  C1, as amended. For every name the initializer accepts that does not hold three hyphens
  in a row: when no file stands on the way to the target directory and the skill
  directory is not there yet, \<open>main\<close> of init_skill.py creates the skill, and \<open>validate\<close>
  on the created directory reports exactly one error, that the description contains
  \<open>TODO\<close>, and \<open>ok\<close> is false. The parser is taken to read the header the template
  writes as a mapping with a \<open>name\<close> and the placeholder description as a string.
\<close>

theorem init_then_validate:
  assumes "name_accepted n"
      and "\<not> contains ''---'' n"
      and "clear_way (root fs) (locate fs (target_directory path_arg fs))"
      and "\<not> exists fs (slash (target_directory path_arg fs) n)"
      and "safe_load (''name: '' @ n @ ''\<newline>description: '' @ PLACEHOLDER_DESCRIPTION)
             = Inr (YMap kvs)"
      and "map_of kvs (YStr ''name'') = Some nm"
      and "map_of kvs (YStr ''description'') = Some (YStr PLACEHOLDER_DESCRIPTION)"
  shows "\<exists>fs' ws. init_main title n path_arg fs = Inr fs'
           \<and> validate safe_load fs' (SkillValidator (slash (target_directory path_arg fs) n))
               = Inr (False, [Description_contains_todo], ws)"
proof -
  define out where "out = target_directory path_arg fs"
  define p where "p = slash out n"
  define header where "header = ''name: '' @ n @ ''\<newline>description: '' @ PLACEHOLDER_DESCRIPTION"
  define t where "t = title (replace (CHR ''-'') '' '' n)"
  define p2 where "p2 = ''\<newline>\<newline># '' @ universal_newlines (t @ TEMPLATE_SECTIONS)"
  define content where "content = ''---'' @ (''\<newline>'' @ header @ ''\<newline>'') @ ''---'' @ p2"
  obtain fs' where c: "create_skill_structure title n out fs = Inr fs'"
    and r: "read_text fs' (joinpath p [''SKILL.md''])
         = Inr (universal_newlines (SKILL_TEMPLATE n t))"
    using create_skill_structure_result [OF assms(1) assms(3) [folded out_def] assms(4) [folded out_def]]
    unfolding p_def t_def by blast
  have i: "init_main title n path_arg fs = Inr fs'"
    using assms(1) c by (simp add: init_main_def target_directory_def out_def)
  have "universal_newlines (SKILL_TEMPLATE n t) = content"
    unfolding content_def header_def p2_def using assms(1) by (rule template_read)
  then have r': "read_text fs' (joinpath p [''SKILL.md'']) = Inr content"
    using r by simp
  have s: "startswith content ''---''"
    by (simp add: content_def startswith_def)
  have sp: "split ''---'' 2 content = [[], ''\<newline>'' @ header @ ''\<newline>'', p2]"
    unfolding content_def header_def using assms(2) by (rule template_split)
  have st: "strip (''\<newline>'' @ header @ ''\<newline>'') = header"
    unfolding header_def by (rule header_strip)
  have l: "safe_load (strip (''\<newline>'' @ header @ ''\<newline>'')) = Inr (YMap kvs)"
    unfolding st using assms(5) unfolding header_def .
  obtain ws where v: "validate safe_load fs' (SkillValidator p) =
     Inr (accumulated_errors PLACEHOLDER_DESCRIPTION (strip p2) (name p) = [],
          accumulated_errors PLACEHOLDER_DESCRIPTION (strip p2) (name p), ws)"
    using validate_accumulates [where safe_load = safe_load, OF r' s sp l assms(6) assms(7)]
    by blast
  have np: "name p = n"
    using assms(1) by (simp add: p_def slash_accepted name_joinpath)
  have b: "strip p2 \<noteq> []"
    unfolding p2_def by (rule body_nonempty)
  have "accumulated_errors PLACEHOLDER_DESCRIPTION (strip p2) (name p) = [Description_contains_todo]"
    using placeholder_facts(5,6) b accepted_chars(3) [OF assms(1)]
    by (simp add: accumulated_errors_def only_if_def np)
  then have "validate safe_load fs' (SkillValidator p) = Inr (False, [Description_contains_todo], ws)"
    using v by simp
  then show ?thesis
    using i unfolding p_def out_def by blast
qed

text \<open>
  The theorem on the name \<open>my-skill\<close>, created below the working directory \<open>/work\<close>.
\<close>

theorem init_then_validate_witness:
  "name_accepted ''my-skill''
   \<and> \<not> contains ''---'' ''my-skill''
   \<and> clear_way (root (bare_fs ''notes''))
         (locate (bare_fs ''notes'') (target_directory None (bare_fs ''notes'')))
   \<and> \<not> exists (bare_fs ''notes'') (slash (target_directory None (bare_fs ''notes'')) ''my-skill'')
   \<and> sample_safe_load (''name: '' @ ''my-skill'' @ ''\<newline>description: '' @ PLACEHOLDER_DESCRIPTION)
       = Inr (YMap [(YStr ''name'', YStr ''my-skill''),
                    (YStr ''description'', YStr PLACEHOLDER_DESCRIPTION)])
   \<and> (\<exists>fs' ws. init_main ascii_title ''my-skill'' None (bare_fs ''notes'') = Inr fs'
         \<and> validate sample_safe_load fs'
               (SkillValidator (slash (target_directory None (bare_fs ''notes'')) ''my-skill''))
             = Inr (False, [Description_contains_todo], ws))"
proof -
  have h1: "name_accepted ''my-skill''"
    by code_simp
  have h2: "\<not> contains ''---'' ''my-skill''"
    by code_simp
  have h3: "clear_way (root (bare_fs ''notes''))
      (locate (bare_fs ''notes'') (target_directory None (bare_fs ''notes'')))"
    by code_simp
  have h4: "\<not> exists (bare_fs ''notes'') (slash (target_directory None (bare_fs ''notes'')) ''my-skill'')"
    by code_simp
  have h5: "sample_safe_load (''name: '' @ ''my-skill'' @ ''\<newline>description: '' @ PLACEHOLDER_DESCRIPTION)
       = Inr (YMap [(YStr ''name'', YStr ''my-skill''),
                    (YStr ''description'', YStr PLACEHOLDER_DESCRIPTION)])"
    by code_simp
  have h6: "map_of [(YStr ''name'', YStr ''my-skill''),
                    (YStr ''description'', YStr PLACEHOLDER_DESCRIPTION)] (YStr ''name'')
      = Some (YStr ''my-skill'')"
    by simp
  have h7: "map_of [(YStr ''name'', YStr ''my-skill''),
                    (YStr ''description'', YStr PLACEHOLDER_DESCRIPTION)] (YStr ''description'')
      = Some (YStr PLACEHOLDER_DESCRIPTION)"
    by simp
  note t = init_then_validate [where safe_load = sample_safe_load and title = ascii_title,
      OF h1 h2 h3 h4 h5 h6 h7]
  show ?thesis
    by (intro conjI h1 h2 h3 h4 h5 t)
qed

text \<open>
  The claim as stated fails for the accepted name \<open>my-skill\<close>: the first run of
  \<open>validate\<close> on the created directory reports one error.
\<close>

theorem init_then_validate_counterexample:
  "name_accepted ''my-skill''
   \<and> (case init_main ascii_title ''my-skill'' None (bare_fs ''notes'') of
        Inl e \<Rightarrow> None
      | Inr fs' \<Rightarrow>
          Some (validate sample_safe_load fs'
                 (SkillValidator (Path True [''work'', ''.github'', ''skills'', ''my-skill'']))))
     = Some (Inr (False, [Description_contains_todo],
          [Body_contains_todo,
           Example_file_found (Path False [''scripts'', ''example.py'']),
           Example_file_found (Path False [''references'', ''example.md'']),
           Example_file_found (Path False [''assets'', ''example-template.md''])]))"
  by code_simp

section \<open>Which checks halt the pass\<close>

text \<open>
  C2, as amended. For a metadata document whose header parses as a mapping: a missing
  \<open>name\<close> field, and a missing \<open>description\<close> field, halt the pass as the structural
  failures do: the report holds that one error and no warning, and the body, resources and
  naming checks do not run. When both fields are there and the description is a string, no
  check halts the pass: a short description, \<open>TODO\<close> in the description, an empty body and a
  space in the directory name each add their error exactly when their condition holds.
\<close>

theorem missing_field_halts_others_accumulate:
  assumes "read_text fs (joinpath p [''SKILL.md'']) = Inr content"
      and "startswith content ''---''"
      and "split ''---'' 2 content = [p0, p1, p2]"
      and "safe_load (strip p1) = Inr (YMap kvs)"
  shows "(map_of kvs (YStr ''name'') = None \<longrightarrow>
            validate safe_load fs (SkillValidator p) = Inr (False, [Must_include_name], []))
         \<and> (map_of kvs (YStr ''name'') \<noteq> None \<and> map_of kvs (YStr ''description'') = None \<longrightarrow>
            validate safe_load fs (SkillValidator p) =
              Inr (False, [Must_include_description], []))
         \<and> (\<forall>d. map_of kvs (YStr ''name'') \<noteq> None
                \<and> map_of kvs (YStr ''description'') = Some (YStr d) \<longrightarrow>
              (\<exists>ws. validate safe_load fs (SkillValidator p) =
                 Inr (accumulated_errors d (strip p2) (name p) = [],
                      accumulated_errors d (strip p2) (name p), ws)))"
  using halts_no_name [where safe_load = safe_load, OF assms]
    halts_no_description [where safe_load = safe_load, OF assms]
    validate_accumulates [where safe_load = safe_load, OF assms]
  by auto

text \<open>
  The theorem on three documents in a directory \<open>my skill\<close>: one without \<open>name\<close>, one
  without \<open>description\<close>, and one with both, an empty body and the description \<open>TODO\<close>.
\<close>

theorem missing_field_halts_others_accumulate_witness:
  "validate sample_safe_load (skill_fs ''my skill'' (document ''description: A nineteen-char txt'' [])) (SkillValidator (Path False [''my skill'']))
     = Inr (False, [Must_include_name], [])
   \<and> validate sample_safe_load (skill_fs ''my skill'' (document ''name: commit-helper'' [])) (SkillValidator (Path False [''my skill'']))
     = Inr (False, [Must_include_description], [])
   \<and> (\<exists>ws. validate sample_safe_load (skill_fs ''my skill'' (document ''name: commit-helper\<newline>description: TODO'' [])) (SkillValidator (Path False [''my skill'']))
     = Inr (False,
            [Description_too_short, Description_contains_todo, Body_is_empty,
             Cannot_contain_spaces ''my skill''], ws))"
proof -
  have r1: "read_text (skill_fs ''my skill'' (document ''description: A nineteen-char txt'' [])) (joinpath (Path False [''my skill'']) [''SKILL.md''])
      = Inr (document ''description: A nineteen-char txt'' [])"
    by code_simp
  have s1: "startswith (document ''description: A nineteen-char txt'' []) ''---''"
    by code_simp
  have c1: "split ''---'' 2 (document ''description: A nineteen-char txt'' [])
      = [[], ''\<newline>'' @ ''description: A nineteen-char txt'' @ ''\<newline>'', (''\<newline>'' @ [])]"
    by code_simp
  have l1: "sample_safe_load (strip (''\<newline>'' @ ''description: A nineteen-char txt'' @ ''\<newline>''))
      = Inr (YMap [(YStr ''description'', YStr ''A nineteen-char txt'')])"
    by code_simp
  have n1: "map_of [(YStr ''description'', YStr ''A nineteen-char txt'')] (YStr ''name'') = None"
    by simp
  have r2: "read_text (skill_fs ''my skill'' (document ''name: commit-helper'' [])) (joinpath (Path False [''my skill'']) [''SKILL.md''])
      = Inr (document ''name: commit-helper'' [])"
    by code_simp
  have s2: "startswith (document ''name: commit-helper'' []) ''---''"
    by code_simp
  have c2: "split ''---'' 2 (document ''name: commit-helper'' [])
      = [[], ''\<newline>'' @ ''name: commit-helper'' @ ''\<newline>'', (''\<newline>'' @ [])]"
    by code_simp
  have l2: "sample_safe_load (strip (''\<newline>'' @ ''name: commit-helper'' @ ''\<newline>''))
      = Inr (YMap [(YStr ''name'', YStr ''commit-helper'')])"
    by code_simp
  have n2: "map_of [(YStr ''name'', YStr ''commit-helper'')] (YStr ''name'') \<noteq> None
      \<and> map_of [(YStr ''name'', YStr ''commit-helper'')] (YStr ''description'') = None"
    by simp
  have r3: "read_text (skill_fs ''my skill'' (document ''name: commit-helper\<newline>description: TODO'' [])) (joinpath (Path False [''my skill'']) [''SKILL.md''])
      = Inr (document ''name: commit-helper\<newline>description: TODO'' [])"
    by code_simp
  have s3: "startswith (document ''name: commit-helper\<newline>description: TODO'' []) ''---''"
    by code_simp
  have c3: "split ''---'' 2 (document ''name: commit-helper\<newline>description: TODO'' [])
      = [[], ''\<newline>'' @ ''name: commit-helper\<newline>description: TODO'' @ ''\<newline>'', (''\<newline>'' @ [])]"
    by code_simp
  have l3: "sample_safe_load (strip (''\<newline>'' @ ''name: commit-helper\<newline>description: TODO'' @ ''\<newline>''))
      = Inr (YMap [(YStr ''name'', YStr ''commit-helper''), (YStr ''description'', YStr ''TODO'')])"
    by code_simp
  have n3: "map_of [(YStr ''name'', YStr ''commit-helper''), (YStr ''description'', YStr ''TODO'')] (YStr ''name'') \<noteq> None
      \<and> map_of [(YStr ''name'', YStr ''commit-helper''), (YStr ''description'', YStr ''TODO'')] (YStr ''description'') = Some (YStr ''TODO'')"
    by simp
  have a3: "accumulated_errors ''TODO'' (strip ''\<newline>'') (name (Path False [''my skill'']))
      = [Description_too_short, Description_contains_todo, Body_is_empty,
         Cannot_contain_spaces ''my skill'']"
    by code_simp
  show ?thesis
    using missing_field_halts_others_accumulate
            [where safe_load = sample_safe_load, OF r1 s1 c1 l1] n1
      missing_field_halts_others_accumulate
            [where safe_load = sample_safe_load, OF r2 s2 c2 l2] n2
      missing_field_halts_others_accumulate
            [where safe_load = sample_safe_load, OF r3 s3 c3 l3] n3
    by (simp add: a3)
qed

text \<open>
  The claim as stated fails for a header without \<open>name\<close>: the report holds the one
  error of the missing field, while the body and naming checks, had they run, would have
  added an empty-body error and a space-in-name error.
\<close>

theorem missing_name_counterexample:
  "sample_safe_load ''description: A nineteen-char txt''
     = Inr (YMap [(YStr ''description'', YStr ''A nineteen-char txt'')])
   \<and> validate sample_safe_load (skill_fs ''my skill'' (document ''description: A nineteen-char txt'' [])) (SkillValidator (Path False [''my skill'']))
       = Inr (False, [Must_include_name], [])
   \<and> run_checks
         [validate_skill_body (skill_fs ''my skill'' (document ''description: A nineteen-char txt'' [])),
          validate_resources (skill_fs ''my skill'' (document ''description: A nineteen-char txt'' [])),
          validate_naming_conventions]
         (SkillValidator (Path False [''my skill'']))
       = Inr \<lparr>skill_path = Path False [''my skill''], skill_name = ''my skill'',
              errors = [Body_is_empty, Cannot_contain_spaces ''my skill''],
              warnings = [No_bundled_resources]\<rparr>"
  by code_simp

section \<open>What the archive holds\<close>



section \<open>Which names the initializer accepts\<close>

text \<open>
  C4, as amended. For every name, \<open>main\<close> of init_skill.py accepts it exactly when each
  of its characters is alphanumeric (as \<open>str.isalnum\<close> reads it), a hyphen or an
  underscore, and at least one is alphanumeric. For a name of ASCII characters this is:
  the name matches \<open>^[A-Za-z0-9_-]+$\<close> and holds at least one letter or digit. A name
  that is not accepted ends the run with exit status 1 and the message about the name; an
  accepted one goes on to \<open>create_skill_structure\<close> in the target directory.
\<close>

theorem name_check:
  "(name_accepted n \<longleftrightarrow>
      list_all (\<lambda>c. isalnum_char c \<or> c = CHR ''-'' \<or> c = CHR ''_'') n \<and> list_ex isalnum_char n)
   \<and> (list_all ascii_char n \<longrightarrow>
        (name_accepted n \<longleftrightarrow> spec_name_pattern n \<and> list_ex isalnum_char n))
   \<and> (\<not> name_accepted n \<longrightarrow>
        init_main title n path_arg fs = Inl (SysExit 1 Name_should_only_contain))
   \<and> (name_accepted n \<longrightarrow>
        init_main title n path_arg fs
          = create_skill_structure title n (target_directory path_arg fs) fs)"
proof (intro conjI impI)
  show "name_accepted n \<longleftrightarrow>
      list_all (\<lambda>c. isalnum_char c \<or> c = CHR ''-'' \<or> c = CHR ''_'') n \<and> list_ex isalnum_char n"
    by (rule name_accepted_iff)
  show "name_accepted n \<longleftrightarrow> spec_name_pattern n \<and> list_ex isalnum_char n"
    if "list_all ascii_char n"
    using that by (rule ascii_name_accepted)
  show "init_main title n path_arg fs = Inl (SysExit 1 Name_should_only_contain)"
    if "\<not> name_accepted n"
    using that by (simp add: init_main_def)
  show "init_main title n path_arg fs
          = create_skill_structure title n (target_directory path_arg fs) fs"
    if "name_accepted n"
    using that by (simp add: init_main_def target_directory_def)
qed

text \<open>
  The theorem on \<open>my-skill\<close>, which is accepted, and on \<open>my skill\<close>, which is not.
\<close>

theorem name_check_witness:
  "name_accepted ''my-skill'' \<and> spec_name_pattern ''my-skill''
   \<and> init_main ascii_title ''my-skill'' None (bare_fs ''notes'')
       = create_skill_structure ascii_title ''my-skill''
           (target_directory None (bare_fs ''notes'')) (bare_fs ''notes'')
   \<and> target_directory None (bare_fs ''notes'') = Path True [''work'', ''.github'', ''skills'']
   \<and> \<not> name_accepted ''my skill''
   \<and> init_main ascii_title ''my skill'' None (bare_fs ''notes'')
       = Inl (SysExit 1 Name_should_only_contain)"
proof -
  have a: "name_accepted ''my-skill''"
    by code_simp
  have b: "list_all ascii_char ''my-skill''"
    by code_simp
  have c: "\<not> name_accepted ''my skill''"
    by code_simp
  have t: "target_directory None (bare_fs ''notes'') = Path True [''work'', ''.github'', ''skills'']"
    by code_simp
  note w1 = name_check [of "''my-skill''" ascii_title None "bare_fs ''notes''"]
  note w2 = name_check [of "''my skill''" ascii_title None "bare_fs ''notes''"]
  have s: "spec_name_pattern ''my-skill''"
    by (rule w1 [THEN conjunct2, THEN conjunct1, rule_format, OF b, THEN iffD1, OF a, THEN conjunct1])
  have i1: "init_main ascii_title ''my-skill'' None (bare_fs ''notes'')
       = create_skill_structure ascii_title ''my-skill''
           (target_directory None (bare_fs ''notes'')) (bare_fs ''notes'')"
    by (rule w1 [THEN conjunct2, THEN conjunct2, THEN conjunct2, rule_format, OF a])
  have i2: "init_main ascii_title ''my skill'' None (bare_fs ''notes'')
       = Inl (SysExit 1 Name_should_only_contain)"
    by (rule w2 [THEN conjunct2, THEN conjunct2, THEN conjunct1, rule_format, OF c])
  show ?thesis
    by (intro conjI a s i1 t c i2)
qed

text \<open>
  The claim as stated fails both ways: the name \<open>-\<close> matches the regular expression and
  is rejected with exit status 1, and the name of the three characters U+00E9, \<open>t\<close>,
  U+00E9 does not match it and is accepted.
\<close>

theorem name_check_counterexample:
  "spec_name_pattern ''-''
   \<and> \<not> name_accepted ''-''
   \<and> init_main ascii_title ''-'' None (bare_fs ''notes'')
       = Inl (SysExit 1 Name_should_only_contain)
   \<and> \<not> spec_name_pattern [CHR 0xE9, CHR ''t'', CHR 0xE9]
   \<and> name_accepted [CHR 0xE9, CHR ''t'', CHR 0xE9]"
proof -
  have a: "spec_name_pattern ''-''"
    by code_simp
  have b: "\<not> name_accepted ''-''"
    by code_simp
  have c: "\<not> spec_name_pattern [CHR 0xE9, CHR ''t'', CHR 0xE9]"
    by code_simp
  have d: "name_accepted [CHR 0xE9, CHR ''t'', CHR 0xE9]"
    by code_simp
  have e: "init_main ascii_title ''-'' None (bare_fs ''notes'')
       = Inl (SysExit 1 Name_should_only_contain)"
    unfolding init_main_def Let_def using b by (simp only: not_False_eq_True if_True)
  show ?thesis
    by (intro conjI a b c d e)
qed

section \<open>A space in the directory name\<close>

text \<open>
  C5, as amended. For every skill directory whose name contains a space: when the five
  checks before the naming check complete (none of them raises), \<open>validate\<close> reports
  exactly one error of the naming check, after the errors those five checks have added,
  and \<open>ok\<close> is false; none of the earlier errors is a naming error. When one of the five
  checks raises \<open>ValidationError\<close>, the naming check does not run: the report holds the
  errors added so far and the error raised, and none of them is the error of a space in
  the name.
\<close>

theorem space_in_name_one_naming_error:
  assumes "CHR '' '' \<in> set (name p)"
  shows "(\<forall>s. run_checks (checks_before_naming safe_load fs) (SkillValidator p) = Inr s \<longrightarrow>
            (\<exists>ws. validate safe_load fs (SkillValidator p) =
               Inr (False, errors s @ [Cannot_contain_spaces (name p)], ws))
            \<and> (\<forall>n. Cannot_contain_spaces n \<notin> set (errors s)))
         \<and> (\<forall>m s. run_checks (checks_before_naming safe_load fs) (SkillValidator p)
                    = Inl (ValidationError m, s) \<longrightarrow>
              validate safe_load fs (SkillValidator p) = Inr (False, errors s @ [m], warnings s)
              \<and> (\<forall>n. Cannot_contain_spaces n \<notin> set (errors s @ [m])))"
proof (intro conjI allI impI)
  fix s
  assume r: "run_checks (checks_before_naming safe_load fs) (SkillValidator p) = Inr s"
  have "keeps (SkillValidator p) s"
    using r by (rule keeps_before_naming)
  then show "Cannot_contain_spaces n \<notin> set (errors s)" for n
    by (auto simp: keeps_def)
  show "\<exists>ws. validate safe_load fs (SkillValidator p) =
            Inr (False, errors s @ [Cannot_contain_spaces (name p)], ws)"
    using validate_reaches_naming [OF r] assms by (simp add: only_if_def)
next
  fix m s
  assume h: "run_checks (checks_before_naming safe_load fs) (SkillValidator p)
               = Inl (ValidationError m, s)"
  show "validate safe_load fs (SkillValidator p) = Inr (False, errors s @ [m], warnings s)"
    using h by (rule halted_before_naming)
  show "Cannot_contain_spaces n \<notin> set (errors s @ [m])" for n
    using halted_before_naming(2) [OF h] by (auto simp: list_ex_iff)
qed

text \<open>
  The theorem on a directory \<open>my skill\<close>: with a complete document, and without
  \<open>SKILL.md\<close>, where the second check raises.
\<close>

theorem space_in_name_one_naming_error_witness:
  "CHR '' '' \<in> set (name (Path False [''my skill'']))
   \<and> run_checks
        (checks_before_naming sample_safe_load
          (skill_fs ''my skill''
            (document ''name: commit-helper\<newline>description: Formats commit messages for the team.''
              body_text)))
        (SkillValidator (Path False [''my skill'']))
       = Inr \<lparr>skill_path = Path False [''my skill''], skill_name = ''my skill'', errors = [],
              warnings = [Name_does_not_match (YStr ''commit-helper'') ''my skill'',
                          Body_very_short, No_bundled_resources]\<rparr>
   \<and> (\<exists>ws. validate sample_safe_load
          (skill_fs ''my skill''
            (document ''name: commit-helper\<newline>description: Formats commit messages for the team.''
              body_text))
          (SkillValidator (Path False [''my skill'']))
         = Inr (False, [Cannot_contain_spaces ''my skill''], ws))
   \<and> run_checks (checks_before_naming sample_safe_load (bare_fs ''my skill''))
        (SkillValidator (Path False [''my skill'']))
       = Inl (ValidationError Skill_md_not_found, SkillValidator (Path False [''my skill'']))
   \<and> validate sample_safe_load (bare_fs ''my skill'') (SkillValidator (Path False [''my skill'']))
       = Inr (False, [Skill_md_not_found], [])"
proof -
  have a: "CHR '' '' \<in> set (name (Path False [''my skill'']))"
    by code_simp
  have b: "run_checks
        (checks_before_naming sample_safe_load
          (skill_fs ''my skill''
            (document ''name: commit-helper\<newline>description: Formats commit messages for the team.''
              body_text)))
        (SkillValidator (Path False [''my skill'']))
       = Inr \<lparr>skill_path = Path False [''my skill''], skill_name = ''my skill'', errors = [],
              warnings = [Name_does_not_match (YStr ''commit-helper'') ''my skill'',
                          Body_very_short, No_bundled_resources]\<rparr>"
    by code_simp
  have h: "run_checks (checks_before_naming sample_safe_load (bare_fs ''my skill''))
        (SkillValidator (Path False [''my skill'']))
       = Inl (ValidationError Skill_md_not_found, SkillValidator (Path False [''my skill'']))"
    by code_simp
  have n: "name (Path False [''my skill'']) = ''my skill''"
    by code_simp
  show ?thesis
    using a b h space_in_name_one_naming_error [OF a, THEN conjunct1, rule_format, OF b]
      space_in_name_one_naming_error [OF a, THEN conjunct2, rule_format, OF h]
    by (simp add: n)
qed

text \<open>
  The claim as stated fails when an earlier check stops the pass: the directory
  \<open>my skill\<close> without \<open>SKILL.md\<close> gets the one error of the missing document, and no
  error of the naming check.
\<close>

theorem space_in_name_counterexample:
  "CHR '' '' \<in> set (name (Path False [''my skill'']))
   \<and> validate sample_safe_load (bare_fs ''my skill'') (SkillValidator (Path False [''my skill'']))
       = Inr (False, [Skill_md_not_found], [])"
  by code_simp

section \<open>The length of the description\<close>

text \<open>
  C6, as amended. For every metadata document whose parsed header has a \<open>name\<close> field and a
  string \<open>description\<close> field, \<open>validate\<close> returns a report, and the description-length error
  is among its errors exactly when the stripped description has fewer than 20 characters.
\<close>

theorem description_length_error:
  assumes "read_text fs (joinpath p [''SKILL.md'']) = Inr content"
      and "startswith content ''---''"
      and "split ''---'' 2 content = [p0, p1, p2]"
      and "safe_load (strip p1) = Inr (YMap kvs)"
      and "map_of kvs (YStr ''name'') = Some nm"
      and "map_of kvs (YStr ''description'') = Some (YStr d)"
  shows "\<exists>ok es ws. validate safe_load fs (SkillValidator p) = Inr (ok, es, ws)
           \<and> (Description_too_short \<in> set es \<longleftrightarrow> length (strip d) < 20)"
proof -
  obtain ws where "validate safe_load fs (SkillValidator p) =
     Inr (accumulated_errors d (strip p2) (name p) = [],
          accumulated_errors d (strip p2) (name p), ws)"
    using validate_accumulates [where safe_load = safe_load, OF assms] by blast
  moreover have "Description_too_short \<in> set (accumulated_errors d (strip p2) (name p))
      \<longleftrightarrow> length (strip d) < 20"
    by (simp add: accumulated_errors_def only_if_def)
  ultimately show ?thesis by blast
qed

text \<open>
  The theorem on a description of 19 characters, which gets the error, and on one of 20
  characters, which does not.
\<close>

theorem description_length_error_witness:
  "length (strip ''A nineteen-char txt'') = 19
   \<and> (\<exists>ok es ws. validate sample_safe_load (skill_fs ''commit-helper'' (document ''name: commit-helper\<newline>description: A nineteen-char txt'' body_text)) (SkillValidator (Path False [''commit-helper'']))
          = Inr (ok, es, ws) \<and> Description_too_short \<in> set es)
   \<and> length (strip ''A twenty-char text!!'') = 20
   \<and> (\<exists>ok es ws. validate sample_safe_load (skill_fs ''commit-helper'' (document ''name: commit-helper\<newline>description: A twenty-char text!!'' body_text)) (SkillValidator (Path False [''commit-helper'']))
          = Inr (ok, es, ws) \<and> Description_too_short \<notin> set es)"
proof -
  have r1: "read_text (skill_fs ''commit-helper'' (document ''name: commit-helper\<newline>description: A nineteen-char txt'' body_text)) (joinpath (Path False [''commit-helper'']) [''SKILL.md''])
      = Inr (document ''name: commit-helper\<newline>description: A nineteen-char txt'' body_text)"
    by code_simp
  have s1: "startswith (document ''name: commit-helper\<newline>description: A nineteen-char txt'' body_text) ''---''"
    by code_simp
  have c1: "split ''---'' 2 (document ''name: commit-helper\<newline>description: A nineteen-char txt'' body_text)
      = [[], ''\<newline>'' @ ''name: commit-helper\<newline>description: A nineteen-char txt'' @ ''\<newline>'', (''\<newline>'' @ body_text)]"
    by code_simp
  have l1: "sample_safe_load (strip (''\<newline>'' @ ''name: commit-helper\<newline>description: A nineteen-char txt'' @ ''\<newline>''))
      = Inr (YMap [(YStr ''name'', YStr ''commit-helper''), (YStr ''description'', YStr ''A nineteen-char txt'')])"
    by code_simp
  have n1: "map_of [(YStr ''name'', YStr ''commit-helper''), (YStr ''description'', YStr ''A nineteen-char txt'')] (YStr ''name'')
      = Some (YStr ''commit-helper'')"
    by simp
  have d1: "map_of [(YStr ''name'', YStr ''commit-helper''), (YStr ''description'', YStr ''A nineteen-char txt'')] (YStr ''description'')
      = Some (YStr ''A nineteen-char txt'')"
    by simp
  have e1: "length (strip ''A nineteen-char txt'') = 19"
    by code_simp
  have r2: "read_text (skill_fs ''commit-helper'' (document ''name: commit-helper\<newline>description: A twenty-char text!!'' body_text)) (joinpath (Path False [''commit-helper'']) [''SKILL.md''])
      = Inr (document ''name: commit-helper\<newline>description: A twenty-char text!!'' body_text)"
    by code_simp
  have s2: "startswith (document ''name: commit-helper\<newline>description: A twenty-char text!!'' body_text) ''---''"
    by code_simp
  have c2: "split ''---'' 2 (document ''name: commit-helper\<newline>description: A twenty-char text!!'' body_text)
      = [[], ''\<newline>'' @ ''name: commit-helper\<newline>description: A twenty-char text!!'' @ ''\<newline>'', (''\<newline>'' @ body_text)]"
    by code_simp
  have l2: "sample_safe_load (strip (''\<newline>'' @ ''name: commit-helper\<newline>description: A twenty-char text!!'' @ ''\<newline>''))
      = Inr (YMap [(YStr ''name'', YStr ''commit-helper''), (YStr ''description'', YStr ''A twenty-char text!!'')])"
    by code_simp
  have n2: "map_of [(YStr ''name'', YStr ''commit-helper''), (YStr ''description'', YStr ''A twenty-char text!!'')] (YStr ''name'')
      = Some (YStr ''commit-helper'')"
    by simp
  have d2: "map_of [(YStr ''name'', YStr ''commit-helper''), (YStr ''description'', YStr ''A twenty-char text!!'')] (YStr ''description'')
      = Some (YStr ''A twenty-char text!!'')"
    by simp
  have e2: "length (strip ''A twenty-char text!!'') = 20"
    by code_simp
  show ?thesis
    using description_length_error [where safe_load = sample_safe_load, OF r1 s1 c1 l1 n1 d1]
      description_length_error [where safe_load = sample_safe_load, OF r2 s2 c2 l2 n2 d2]
    by (simp add: e1 e2)
qed

text \<open>
  The claim as stated fails for a header without \<open>name\<close>: the pass stops there, and a
  description of 19 characters gets no length error.
\<close>

theorem description_length_counterexample:
  "sample_safe_load ''description: A nineteen-char txt''
     = Inr (YMap [(YStr ''description'', YStr ''A nineteen-char txt'')])
   \<and> length (strip ''A nineteen-char txt'') = 19
   \<and> validate sample_safe_load (skill_fs ''commit-helper'' (document ''description: A nineteen-char txt'' body_text)) (SkillValidator (Path False [''commit-helper'']))
       = Inr (False, [Must_include_name], [])"
  by code_simp

section \<open>A directory without SKILL.md\<close>



section \<open>Where the archive is written\<close>




section \<open>A description that is not a string\<close>

text \<open>
  C9, as amended. For every metadata document whose parsed header has a \<open>name\<close> field and a
  \<open>description\<close> that is not a string: \<open>validate\<close> returns no report and ends with an
  uncaught exception (\<open>AttributeError\<close> for a truthy value without \<open>strip\<close>, \<open>TypeError\<close>
  otherwise), unless the description is an empty list, dictionary or set; for these it
  returns a report that holds the description-length error.
\<close>

theorem non_string_description:
  assumes "read_text fs (joinpath p [''SKILL.md'']) = Inr content"
      and "startswith content ''---''"
      and "split ''---'' 2 content = [p0, p1, p2]"
      and "safe_load (strip p1) = Inr (YMap kvs)"
      and "map_of kvs (YStr ''name'') = Some nm"
      and "map_of kvs (YStr ''description'') = Some v"
      and "\<not> is_str v"
  shows "(empty_collection v \<longrightarrow>
            (\<exists>ok es ws. validate safe_load fs (SkillValidator p) = Inr (ok, es, ws)
               \<and> Description_too_short \<in> set es))
         \<and> (\<not> empty_collection v \<longrightarrow>
              validate safe_load fs (SkillValidator p) =
                Inl (if truthy v \<and> \<not> is_bytes v then AttributeError else TypeError))"
proof (intro conjI impI)
  assume e: "empty_collection v"
  obtain s1 ws1 where f: "check_frontmatter (Inr (YMap kvs)) (SkillValidator p) = Inr s1"
    and g1: "grows (SkillValidator p) s1 [Description_too_short] ws1"
    using check_frontmatter_empty [OF assms(5,6) e] by blast
  have sp: "skill_path s1 = p"
    using g1 by (simp add: grows_def)
  obtain s2 es2 ws2 where r: "run_checks [validate_skill_body fs, validate_resources fs,
             validate_naming_conventions] s1 = Inr s2"
    and g2: "grows s1 s2 es2 ws2"
    using later_checks_run [of fs s1 content p0 p1 p2] assms(1,3) sp by auto
  have "validate safe_load fs (SkillValidator p) = Inr (report s2)"
    using f r by (simp add: validate_of_frontmatter [OF assms(1-3)] assms(4))
  moreover have "Description_too_short \<in> set (errors s2)"
    using g1 g2 by (simp add: grows_def)
  ultimately show "\<exists>ok es ws. validate safe_load fs (SkillValidator p) = Inr (ok, es, ws)
               \<and> Description_too_short \<in> set es"
    by (simp add: report_def)
next
  assume n: "\<not> empty_collection v"
  obtain s where "check_frontmatter (Inr (YMap kvs)) (SkillValidator p) =
     Inl (if truthy v \<and> \<not> is_bytes v then AttributeError else TypeError, s)"
    using check_frontmatter_raises [OF assms(5,6,7) n] by blast
  then show "validate safe_load fs (SkillValidator p) =
                Inl (if truthy v \<and> \<not> is_bytes v then AttributeError else TypeError)"
    by (simp add: validate_of_frontmatter [OF assms(1-3)] assms(4))
qed

text \<open>
  The theorem on \<open>description: 42\<close>, which raises, and on \<open>description: []\<close>, which
  does not.
\<close>

theorem non_string_description_witness:
  "\<not> is_str (YInt 42) \<and> \<not> empty_collection (YInt 42)
   \<and> validate sample_safe_load (skill_fs ''commit-helper'' (document ''name: commit-helper\<newline>description: 42'' body_text)) (SkillValidator (Path False [''commit-helper'']))
       = Inl AttributeError
   \<and> \<not> is_str (YSeq []) \<and> empty_collection (YSeq [])
   \<and> (\<exists>ok es ws. validate sample_safe_load (skill_fs ''commit-helper'' (document ''name: commit-helper\<newline>description: []'' body_text)) (SkillValidator (Path False [''commit-helper'']))
          = Inr (ok, es, ws) \<and> Description_too_short \<in> set es)"
proof -
  have r1: "read_text (skill_fs ''commit-helper'' (document ''name: commit-helper\<newline>description: 42'' body_text)) (joinpath (Path False [''commit-helper'']) [''SKILL.md''])
      = Inr (document ''name: commit-helper\<newline>description: 42'' body_text)"
    by code_simp
  have s1: "startswith (document ''name: commit-helper\<newline>description: 42'' body_text) ''---''"
    by code_simp
  have c1: "split ''---'' 2 (document ''name: commit-helper\<newline>description: 42'' body_text)
      = [[], ''\<newline>'' @ ''name: commit-helper\<newline>description: 42'' @ ''\<newline>'', (''\<newline>'' @ body_text)]"
    by code_simp
  have l1: "sample_safe_load (strip (''\<newline>'' @ ''name: commit-helper\<newline>description: 42'' @ ''\<newline>''))
      = Inr (YMap [(YStr ''name'', YStr ''commit-helper''), (YStr ''description'', YInt 42)])"
    by code_simp
  have n1: "map_of [(YStr ''name'', YStr ''commit-helper''), (YStr ''description'', YInt 42)] (YStr ''name'')
      = Some (YStr ''commit-helper'')"
    by simp
  have d1: "map_of [(YStr ''name'', YStr ''commit-helper''), (YStr ''description'', YInt 42)] (YStr ''description'') = Some (YInt 42)"
    by simp
  have i1: "\<not> is_str (YInt 42)"
    by simp
  have e1: "\<not> empty_collection (YInt 42)"
    by (simp add: empty_collection_def)
  have r2: "read_text (skill_fs ''commit-helper'' (document ''name: commit-helper\<newline>description: []'' body_text)) (joinpath (Path False [''commit-helper'']) [''SKILL.md''])
      = Inr (document ''name: commit-helper\<newline>description: []'' body_text)"
    by code_simp
  have s2: "startswith (document ''name: commit-helper\<newline>description: []'' body_text) ''---''"
    by code_simp
  have c2: "split ''---'' 2 (document ''name: commit-helper\<newline>description: []'' body_text)
      = [[], ''\<newline>'' @ ''name: commit-helper\<newline>description: []'' @ ''\<newline>'', (''\<newline>'' @ body_text)]"
    by code_simp
  have l2: "sample_safe_load (strip (''\<newline>'' @ ''name: commit-helper\<newline>description: []'' @ ''\<newline>''))
      = Inr (YMap [(YStr ''name'', YStr ''commit-helper''), (YStr ''description'', YSeq [])])"
    by code_simp
  have n2: "map_of [(YStr ''name'', YStr ''commit-helper''), (YStr ''description'', YSeq [])] (YStr ''name'')
      = Some (YStr ''commit-helper'')"
    by simp
  have d2: "map_of [(YStr ''name'', YStr ''commit-helper''), (YStr ''description'', YSeq [])] (YStr ''description'') = Some (YSeq [])"
    by simp
  have i2: "\<not> is_str (YSeq [])"
    by simp
  have e2: "empty_collection (YSeq [])"
    by (simp add: empty_collection_def)
  show ?thesis
    using non_string_description [where safe_load = sample_safe_load, OF r1 s1 c1 l1 n1 d1 i1]
      non_string_description [where safe_load = sample_safe_load, OF r2 s2 c2 l2 n2 d2 i2]
    by (simp add: e1 e2)
qed

text \<open>
  The claim as stated fails for \<open>description: []\<close>: the value is not a string, and
  \<open>validate\<close> returns a report.
\<close>

theorem non_string_description_counterexample:
  "sample_safe_load ''name: commit-helper\<newline>description: []''
     = Inr (YMap [(YStr ''name'', YStr ''commit-helper''), (YStr ''description'', YSeq [])])
   \<and> \<not> is_str (YSeq [])
   \<and> validate sample_safe_load (skill_fs ''commit-helper'' (document ''name: commit-helper\<newline>description: []'' body_text)) (SkillValidator (Path False [''commit-helper'']))
       = Inr (False, [Description_too_short], [Body_very_short, No_bundled_resources])"
  by code_simp

section \<open>A name without cased letters\<close>

text \<open>
  C10, as amended. For every skill directory whose name has no cased letter: when the five
  checks before the naming check complete, \<open>validate\<close> returns a report whose warnings
  hold the \<open>should be lowercase\<close> warning for that name. When one of the five checks
  raises \<open>ValidationError\<close>, the naming check does not run: the report holds the warnings
  added so far, and none of them is a \<open>should be lowercase\<close> warning.
\<close>

theorem uncased_name_lowercase_warning:
  assumes "\<not> list_ex cased_char (name p)"
  shows "(\<forall>s. run_checks (checks_before_naming safe_load fs) (SkillValidator p) = Inr s \<longrightarrow>
            (\<exists>ok es ws. validate safe_load fs (SkillValidator p) = Inr (ok, es, ws)
               \<and> Should_be_lowercase (name p) \<in> set ws))
         \<and> (\<forall>m s. run_checks (checks_before_naming safe_load fs) (SkillValidator p)
                    = Inl (ValidationError m, s) \<longrightarrow>
              validate safe_load fs (SkillValidator p) = Inr (False, errors s @ [m], warnings s)
              \<and> (\<forall>n. Should_be_lowercase n \<notin> set (warnings s)))"
proof (intro conjI allI impI)
  fix s
  assume r: "run_checks (checks_before_naming safe_load fs) (SkillValidator p) = Inr s"
  have "\<not> list_ex islower_char (name p)"
    using assms by (auto simp: list_ex_iff cased_char_def)
  then have "\<not> islower (name p)"
    by (simp add: islower_def)
  then show "\<exists>ok es ws. validate safe_load fs (SkillValidator p) = Inr (ok, es, ws)
               \<and> Should_be_lowercase (name p) \<in> set ws"
    using validate_reaches_naming [OF r] by (simp add: only_if_def)
next
  fix m s
  assume h: "run_checks (checks_before_naming safe_load fs) (SkillValidator p)
               = Inl (ValidationError m, s)"
  show "validate safe_load fs (SkillValidator p) = Inr (False, errors s @ [m], warnings s)"
    using h by (rule halted_before_naming)
  show "Should_be_lowercase n \<notin> set (warnings s)" for n
    using halted_before_naming(3) [OF h] by (auto simp: list_ex_iff)
qed

text \<open>
  The theorem on a directory \<open>123\<close>: with a complete document, and without
  \<open>SKILL.md\<close>, where the second check raises.
\<close>

theorem uncased_name_lowercase_warning_witness:
  "\<not> list_ex cased_char (name (Path False [''123'']))
   \<and> run_checks
        (checks_before_naming sample_safe_load
          (skill_fs ''123''
            (document ''name: commit-helper\<newline>description: Formats commit messages for the team.''
              body_text)))
        (SkillValidator (Path False [''123'']))
       = Inr \<lparr>skill_path = Path False [''123''], skill_name = ''123'', errors = [],
              warnings = [Name_does_not_match (YStr ''commit-helper'') ''123'',
                          Body_very_short, No_bundled_resources]\<rparr>
   \<and> (\<exists>ok es ws. validate sample_safe_load
          (skill_fs ''123''
            (document ''name: commit-helper\<newline>description: Formats commit messages for the team.''
              body_text))
          (SkillValidator (Path False [''123'']))
         = Inr (ok, es, ws) \<and> Should_be_lowercase ''123'' \<in> set ws)
   \<and> run_checks (checks_before_naming sample_safe_load (bare_fs ''123''))
        (SkillValidator (Path False [''123'']))
       = Inl (ValidationError Skill_md_not_found, SkillValidator (Path False [''123'']))
   \<and> validate sample_safe_load (bare_fs ''123'') (SkillValidator (Path False [''123'']))
       = Inr (False, [Skill_md_not_found], [])"
proof -
  have a: "\<not> list_ex cased_char (name (Path False [''123'']))"
    by code_simp
  have b: "run_checks
        (checks_before_naming sample_safe_load
          (skill_fs ''123''
            (document ''name: commit-helper\<newline>description: Formats commit messages for the team.''
              body_text)))
        (SkillValidator (Path False [''123'']))
       = Inr \<lparr>skill_path = Path False [''123''], skill_name = ''123'', errors = [],
              warnings = [Name_does_not_match (YStr ''commit-helper'') ''123'',
                          Body_very_short, No_bundled_resources]\<rparr>"
    by code_simp
  have h: "run_checks (checks_before_naming sample_safe_load (bare_fs ''123''))
        (SkillValidator (Path False [''123'']))
       = Inl (ValidationError Skill_md_not_found, SkillValidator (Path False [''123'']))"
    by code_simp
  have n: "name (Path False [''123'']) = ''123''"
    by code_simp
  show ?thesis
    using a b h uncased_name_lowercase_warning [OF a, THEN conjunct1, rule_format, OF b]
      uncased_name_lowercase_warning [OF a, THEN conjunct2, rule_format, OF h]
    by (simp add: n)
qed

text \<open>
  The claim as stated fails when an earlier check stops the pass: the directory \<open>123\<close>
  without \<open>SKILL.md\<close> gets no warning at all.
\<close>

theorem uncased_name_counterexample:
  "\<not> list_ex cased_char (name (Path False [''123'']))
   \<and> validate sample_safe_load (bare_fs ''123'') (SkillValidator (Path False [''123'']))
       = Inr (False, [Skill_md_not_found], [])"
  by code_simp

end
